theory Spec2Isabelle
  imports Complex_Main
begin

section \<open>Strings\<close>

text \<open>
  A source string is a \<open>string\<close>: a list of 8-bit characters, read as the code points
  U+0000 to U+00FF. \<open>String.prototype.toLowerCase\<close> moves the ASCII capitals and the
  Latin-1 capitals (U+00C0 to U+00DE without the multiplication sign U+00D7) up by 32 and
  leaves every other character of that range alone.
\<close>

definition char_lower :: "char \<Rightarrow> char" where
  "char_lower c =
     (let n = (of_char c :: nat)
      in if (65 \<le> n \<and> n \<le> 90) \<or> (192 \<le> n \<and> n \<le> 222 \<and> n \<noteq> 215)
         then char_of (n + 32) else c)"

definition toLowerCase :: "string \<Rightarrow> string" where
  "toLowerCase s = map char_lower s"

definition has_upper_hex :: "string \<Rightarrow> bool" where
  "has_upper_hex s = (\<exists>c \<in> set s. c \<in> set ''ABCDEF'')"



text \<open>
  Decimal rendering of a natural number, as \<open>String(n)\<close> and template literals give it.
\<close>

function decimal :: "nat \<Rightarrow> string" where
  "decimal n =
     (if n < 10 then [char_of (48 + n)]
      else decimal (n div 10) @ [char_of (48 + n mod 10)])"
  by pat_completeness auto
termination
  by (relation "measure id") auto

declare decimal.simps [simp del]

text \<open>
  \<open>s.startsWith(p)\<close>, \<open>s.includes(p)\<close> (here \<open>str_includes\<close>) and \<open>s.split(d)\<close> for a one-character separator;
  \<open>s.substring(0, n)\<close> is \<open>take n s\<close>.
\<close>

fun startsWith :: "string \<Rightarrow> string \<Rightarrow> bool" where
  "startsWith s [] = True"
| "startsWith [] (p # ps) = False"
| "startsWith (c # cs) (p # ps) = (c = p \<and> startsWith cs ps)"

fun str_includes :: "string \<Rightarrow> string \<Rightarrow> bool" where
  "str_includes [] p = (p = [])"
| "str_includes (c # cs) p = (startsWith (c # cs) p \<or> str_includes cs p)"

fun split_on :: "char \<Rightarrow> string \<Rightarrow> string list" where
  "split_on d [] = [[]]"
| "split_on d (c # cs) =
     (if c = d then [] # split_on d cs
      else (case split_on d cs of
              [] \<Rightarrow> [[c]]
            | p # ps \<Rightarrow> (c # p) # ps))"

text \<open>
  Hexadecimal text. A buffer is a list of bytes, each byte a \<open>char\<close>.
  \<open>buf.toString('hex')\<close> writes two lowercase digits per byte; \<open>Buffer.from(s, 'hex')\<close>
  reads pairs of digits of either case and stops at the first pair that is not two
  digits (a single trailing digit included); the test \<open>/^[0-9a-f]+$/i\<close> accepts the
  non-empty strings of such digits.
\<close>

definition hex_digit :: "nat \<Rightarrow> char" where
  "hex_digit n = (if n < 10 then char_of (48 + n) else char_of (87 + n))"

definition hex_value :: "char \<Rightarrow> nat option" where
  "hex_value c =
     (let n = (of_char c :: nat)
      in if 48 \<le> n \<and> n \<le> 57 then Some (n - 48)
         else if 97 \<le> n \<and> n \<le> 102 then Some (n - 87)
         else if 65 \<le> n \<and> n \<le> 70 then Some (n - 55)
         else None)"

definition toHex :: "string \<Rightarrow> string" where
  "toHex buf = concat (map (\<lambda>b. [hex_digit (of_char b div 16), hex_digit (of_char b mod 16)]) buf)"

fun fromHex :: "string \<Rightarrow> string" where
  "fromHex (a # b # rest) =
     (case (hex_value a, hex_value b) of
        (Some x, Some y) \<Rightarrow> char_of (16 * x + y) # fromHex rest
      | _ \<Rightarrow> [])"
| "fromHex _ = []"

definition isHex :: "string \<Rightarrow> bool" where
  "isHex s = (s \<noteq> [] \<and> (\<forall>c \<in> set s. hex_value c \<noteq> None))"
section \<open>TokenService\<close>

record token_info =
  symbol :: string
  decimals :: nat
  tokenName :: string

text \<open>
  \<open>BASE_SEPOLIA_TOKENS\<close> is an object literal: its own properties are the three
  addresses, in the order of the source, and every other property is looked up in
  \<open>Object.prototype\<close>. A read \<open>obj[key]\<close> therefore yields an own entry, an inherited
  built-in, or \<open>undefined\<close>.
\<close>

definition BASE_SEPOLIA_TOKENS :: "(string \<times> token_info) list" where
  "BASE_SEPOLIA_TOKENS =
     [(''0x0000000000000000000000000000000000000000'',
         \<lparr>symbol = ''ETH'', decimals = 18, tokenName = ''Ethereum''\<rparr>),
      (''0x036CbD53842c5426634e7929541eC2318f3dCF7e'',
         \<lparr>symbol = ''USDC'', decimals = 6, tokenName = ''USD Coin''\<rparr>),
      (''0x4200000000000000000000000000000000000006'',
         \<lparr>symbol = ''WETH'', decimals = 18, tokenName = ''Wrapped Ethereum''\<rparr>)]"

definition Object_prototype_names :: "string list" where
  "Object_prototype_names =
     [''constructor'', ''__defineGetter__'', ''__defineSetter__'', ''hasOwnProperty'',
      ''__lookupGetter__'', ''__lookupSetter__'', ''isPrototypeOf'',
      ''propertyIsEnumerable'', ''toString'', ''valueOf'', ''__proto__'',
      ''toLocaleString'']"

datatype property_value = Entry token_info | Inherited string

definition object_get :: "(string \<times> token_info) list \<Rightarrow> string \<Rightarrow> property_value option" where
  "object_get obj key =
     (case map_of obj key of
        Some i \<Rightarrow> Some (Entry i)
      | None \<Rightarrow> if key \<in> set Object_prototype_names then Some (Inherited key) else None)"

text \<open>
  \<open>getTokenInfo\<close>: \<open>BASE_SEPOLIA_TOKENS[tokenAddress.toLowerCase()] || null\<close>. Every
  value the read can yield is an object or a function, hence truthy, so \<open>|| null\<close> only
  turns \<open>undefined\<close> into \<open>null\<close> (\<open>None\<close>).
\<close>

definition getTokenInfo :: "string \<Rightarrow> property_value option" where
  "getTokenInfo tokenAddress =
     (let normalizedAddress = toLowerCase tokenAddress
      in object_get BASE_SEPOLIA_TOKENS normalizedAddress)"

text \<open>
  \<open>getTokenSymbol\<close>: \<open>info?.symbol || 'UNKNOWN'\<close>. An inherited built-in has no
  \<open>symbol\<close> property, and an empty symbol is falsy.
\<close>

definition getTokenSymbol :: "string \<Rightarrow> string" where
  "getTokenSymbol tokenAddress =
     (case getTokenInfo tokenAddress of
        Some (Entry i) \<Rightarrow> if symbol i = [] then ''UNKNOWN'' else symbol i
      | Some (Inherited _) \<Rightarrow> ''UNKNOWN''
      | None \<Rightarrow> ''UNKNOWN'')"



section \<open>Errors and numbers\<close>

text \<open>
  A thrown \<open>Error\<close> is a value carrying its message (and its \<open>code\<close>, when it has one);
  a computation that may throw returns \<open>js_error + 'a\<close>, with \<open>Inl\<close> for the throw.
  A source \<open>number\<close> that holds a score is a \<open>real\<close>: the arithmetic on scores is exact
  here, without the rounding and the not-a-number of the source's doubles.
\<close>

datatype js_error = Error string "string option"

fun message :: "js_error \<Rightarrow> string" where
  "message (Error m c) = m"

fun code :: "js_error \<Rightarrow> string option" where
  "code (Error m c) = c"


section \<open>DDxyzService and BlockRaderService\<close>

text \<open>
  The data a provider returns, at the types the interfaces declare; an optional field is
  an \<open>option\<close>. The categorical level is one of the words \<open>low\<close>, \<open>medium\<close>, \<open>high\<close>,
  \<open>critical\<close>; it is kept as a string, and a word outside the four falls to the default
  of whichever table it is looked up in.
\<close>

record DDxyzThreatRisk =
  dd_riskScore :: "real option"
  dd_riskLevel :: "string option"
  dd_flaggedReasons :: "string list option"

record BlockRaderWalletData =
  br_address :: string
  br_suspiciousActivity :: "bool option"
  br_newAccount :: "bool option"
  br_flags :: "string list option"
  br_riskScore :: "real option"



section \<open>SafetyService\<close>

text \<open>
  The fixed message texts carry emoji; each text is named by a constructor.
\<close>

datatype recommendation_text =
    SafeToProceed
  | ExerciseCautionReviewDetails
  | HighRiskConsiderAvoiding
  | CriticalRiskDoNotProceed
  | UnableToAssess
  | VerificationUnavailableProceedWithCaution
  | ProceedWithCautionVerificationUnavailable

datatype action_text =
    ApprovedProceedWithConfidence
  | ApprovedWithEscrowProtection
  | RequiresEscrowHighRisk
  | BlockedCriticalSafetyRisk
  | UseEscrowForSafety

text \<open>
  \<open>SafetyResult\<close>, without the two wall-clock fields of \<open>metadata\<close> (\<open>responseTime\<close>,
  \<open>timestamp\<close>); \<open>providers\<close> is \<open>metadata.providers\<close>.
\<close>

record SafetyResult =
  riskLevel :: string
  score :: real
  reasons :: "string list"
  recommendation :: recommendation_text
  providers :: "string list"

datatype payment_method = direct | escrow | blocked

record TransactionDecision =
  isApproved :: bool
  safetyData :: SafetyResult
  requiresEscrow :: bool
  recommendedAction :: action_text
  paymentMethod :: payment_method

definition riskDeductions :: "(string \<times> real) list" where
  "riskDeductions = [(''low'', 0), (''medium'', 20), (''high'', 50), (''critical'', 80)]"

text \<open>
  \<open>calculateRiskScore\<close>. \<open>riskDeductions[level] || 0\<close> is the table value, and \<open>0\<close>
  where the table has none (or has the falsy \<open>0\<close>); an empty level is falsy and deducts
  nothing. The BlockRader part deducts 30 and 10 for its two flags and then its own
  \<open>riskScore\<close>.
\<close>

definition calculateRiskScore ::
  "DDxyzThreatRisk option \<Rightarrow> BlockRaderWalletData option \<Rightarrow> real" where
  "calculateRiskScore ddxyzData blockRaderData =
     (let score0 = 100;
          score1 =
            (case ddxyzData of
               None \<Rightarrow> score0
             | Some d \<Rightarrow>
                 (case dd_riskScore d of
                    Some r \<Rightarrow> score0 - r
                  | None \<Rightarrow>
                      (case dd_riskLevel d of
                         None \<Rightarrow> score0
                       | Some l \<Rightarrow>
                           if l = [] then score0
                           else score0 -
                             (case map_of riskDeductions l of
                                Some v \<Rightarrow> if v = 0 then 0 else v
                              | None \<Rightarrow> 0))));
          score2 =
            (case blockRaderData of
               None \<Rightarrow> score1
             | Some b \<Rightarrow>
                 (let s1 = (if br_suspiciousActivity b = Some True then score1 - 30 else score1);
                      s2 = (if br_newAccount b = Some True then s1 - 10 else s1)
                  in case br_riskScore b of Some r \<Rightarrow> s2 - r | None \<Rightarrow> s2))
      in max 0 (min 100 score2))"

definition mapRiskLevel :: "real \<Rightarrow> string" where
  "mapRiskLevel s =
     (if s \<ge> 80 then ''low''
      else if s \<ge> 60 then ''medium''
      else if s \<ge> 30 then ''high''
      else ''critical'')"

definition generateReasons ::
  "DDxyzThreatRisk option \<Rightarrow> BlockRaderWalletData option \<Rightarrow> string list" where
  "generateReasons ddxyzData blockRaderData =
     (let r1 = (case ddxyzData of
                  None \<Rightarrow> []
                | Some d \<Rightarrow> (case dd_flaggedReasons d of None \<Rightarrow> [] | Some fs \<Rightarrow> fs));
          r2 = (case blockRaderData of
                  None \<Rightarrow> r1
                | Some b \<Rightarrow> (case br_flags b of None \<Rightarrow> r1 | Some fs \<Rightarrow> r1 @ fs))
      in if length r2 = 0 then [''No specific risk factors identified''] else r2)"

definition generateRecommendation :: "string \<Rightarrow> recommendation_text" where
  "generateRecommendation level =
     (case map_of [(''low'', SafeToProceed), (''medium'', ExerciseCautionReviewDetails),
                   (''high'', HighRiskConsiderAvoiding),
                   (''critical'', CriticalRiskDoNotProceed)] level of
        Some t \<Rightarrow> t
      | None \<Rightarrow> UnableToAssess)"

definition getFallbackSafety :: "string \<Rightarrow> SafetyResult" where
  "getFallbackSafety reason =
     \<lparr>riskLevel = ''medium'', score = 50, reasons = [reason],
      recommendation = ProceedWithCautionVerificationUnavailable,
      providers = [''fallback'']\<rparr>"

text \<open>
  \<open>checkWalletSafety\<close>. The second argument is the outcome of the awaited call
  \<open>this.ddxyzService.getThreatRisk(address, chain)\<close>, made for the chains \<open>ethereum\<close>
  and \<open>base\<close> only: \<open>Inl\<close> when the call throws, which sends control to the \<open>catch\<close>
  block and its fixed assessment. \<open>blockRaderData\<close> is never assigned and stays \<open>null\<close>.
\<close>

definition checkWalletSafety ::
  "string \<Rightarrow> (js_error + DDxyzThreatRisk option) \<Rightarrow> SafetyResult" where
  "checkWalletSafety chain threatCall =
     (let blockRaderData = None;
          consulted = (chain = ''ethereum'' \<or> chain = ''base'')
      in case (if consulted then threatCall else Inr None) of
           Inl err \<Rightarrow>
             \<lparr>riskLevel = ''medium'', score = 50,
              reasons = [''Unable to verify wallet - exercise caution''],
              recommendation = VerificationUnavailableProceedWithCaution,
              providers = [''fallback'']\<rparr>
         | Inr threatData \<Rightarrow>
             (let providers = (if threatData \<noteq> None then [''dd.xyz''] else []);
                  riskScore = calculateRiskScore threatData blockRaderData;
                  riskLevel = mapRiskLevel riskScore;
                  reasons = generateReasons threatData blockRaderData;
                  recommendation = generateRecommendation riskLevel
              in \<lparr>riskLevel = riskLevel, score = riskScore, reasons = reasons,
                  recommendation = recommendation, providers = providers\<rparr>))"

text \<open>
  \<open>checkTransactionSafety\<close>. The chain is \<open>None\<close> when the caller passed no string, in
  which case \<open>transaction.chain.toLowerCase()\<close> throws inside the \<open>try\<close>.
\<close>

definition checkTransactionSafety ::
  "string option \<Rightarrow> (js_error + DDxyzThreatRisk option) \<Rightarrow> SafetyResult" where
  "checkTransactionSafety chain threatCall =
     (case chain of
        None \<Rightarrow> getFallbackSafety ''Transaction verification unavailable''
      | Some c \<Rightarrow>
          (let toAddressSafety = checkWalletSafety (toLowerCase c) threatCall
           in \<lparr>riskLevel = riskLevel toAddressSafety, score = score toAddressSafety,
               reasons = reasons toAddressSafety @ [''Standard transfer''],
               recommendation = recommendation toAddressSafety,
               providers = providers toAddressSafety\<rparr>))"

definition getRiskPriority :: "string \<Rightarrow> nat" where
  "getRiskPriority level =
     (case map_of [(''low'', 1), (''medium'', 2), (''high'', 3), (''critical'', 4)] level of
        Some p \<Rightarrow> if p = 0 then 1 else p
      | None \<Rightarrow> 1)"

text \<open>
  \<open>calculateOverallRisk\<close>: \<open>risks.reduce\<close> without an initial value starts from the first
  element and throws a \<open>TypeError\<close> on an empty array.
\<close>

definition calculateOverallRisk :: "SafetyResult list \<Rightarrow> js_error + SafetyResult" where
  "calculateOverallRisk risks =
     (case risks of
        [] \<Rightarrow> Inl (Error ''Reduce of empty array with no initial value'' None)
      | r # rs \<Rightarrow>
          Inr (foldl (\<lambda>max current.
                 if getRiskPriority (riskLevel current) > getRiskPriority (riskLevel max)
                 then current else max) r rs))"

definition determinePaymentMethod :: "SafetyResult \<Rightarrow> payment_method" where
  "determinePaymentMethod risk =
     (if riskLevel risk = ''critical'' then blocked
      else if riskLevel risk = ''high'' then escrow
      else if riskLevel risk = ''medium'' then escrow
      else if riskLevel risk = ''low'' then direct
      else escrow)"

definition getRecommendedAction :: "SafetyResult \<Rightarrow> action_text" where
  "getRecommendedAction risk =
     (case map_of [(''low'', ApprovedProceedWithConfidence),
                   (''medium'', ApprovedWithEscrowProtection),
                   (''high'', RequiresEscrowHighRisk),
                   (''critical'', BlockedCriticalSafetyRisk)] (riskLevel risk) of
        Some t \<Rightarrow> t
      | None \<Rightarrow> ApprovedWithEscrowProtection)"

definition getFallbackTransactionSafety :: TransactionDecision where
  "getFallbackTransactionSafety =
     \<lparr>isApproved = True,
      safetyData =
        \<lparr>riskLevel = ''medium'', score = 50,
         reasons = [''Safety service unavailable - using fallback''],
         recommendation = ProceedWithCautionVerificationUnavailable,
         providers = [''fallback'']\<rparr>,
      requiresEscrow = True,
      recommendedAction = UseEscrowForSafety,
      paymentMethod = escrow\<rparr>"

text \<open>
  \<open>enhancedTransactionSafety\<close>. The three calls are the outcomes of the provider calls
  made for the buyer wallet, for the vendor wallet, and for the vendor wallet again
  inside \<open>checkTransactionSafety\<close>. Any throw inside the \<open>try\<close> (a missing chain, an
  empty reduce) yields the fixed fallback decision.
\<close>

definition enhancedTransactionSafety ::
  "string option \<Rightarrow> (js_error + DDxyzThreatRisk option) \<Rightarrow>
   (js_error + DDxyzThreatRisk option) \<Rightarrow> (js_error + DDxyzThreatRisk option) \<Rightarrow>
   TransactionDecision" where
  "enhancedTransactionSafety chain buyerCall vendorCall transactionCall =
     (case chain of
        None \<Rightarrow> getFallbackTransactionSafety
      | Some c \<Rightarrow>
          (let buyerSafety = checkWalletSafety (toLowerCase c) buyerCall;
               vendorSafety = checkWalletSafety (toLowerCase c) vendorCall;
               transactionSafety = checkTransactionSafety (Some c) transactionCall
           in case calculateOverallRisk [buyerSafety, vendorSafety, transactionSafety] of
                Inl err \<Rightarrow> getFallbackTransactionSafety
              | Inr overallRisk \<Rightarrow>
                  (let paymentMethod = determinePaymentMethod overallRisk;
                       requiresEscrow = (paymentMethod = escrow)
                   in \<lparr>isApproved = (paymentMethod \<noteq> blocked),
                       safetyData = overallRisk,
                       requiresEscrow = requiresEscrow,
                       recommendedAction = getRecommendedAction overallRisk,
                       paymentMethod = paymentMethod\<rparr>)))"

section \<open>The score composition in the specification's words\<close>





section \<open>WalletService\<close>

text \<open>
  Node's \<open>crypto\<close> module and the \<open>ethers.Wallet\<close> constructor are outside the
  repository; the service is modelled over them as parameters. \<open>sha256_hex s\<close> is
  \<open>createHash('sha256').update(s).digest('hex')\<close>; \<open>scryptSync\<close> is the key derivation;
  \<open>cipher\<close> and \<open>decipher\<close> take the key, the initialisation vector and the data, and
  stand for \<open>createCipheriv\<close> or \<open>createDecipheriv\<close> with algorithm \<open>aes-256-cbc\<close>
  followed by \<open>update\<close> and \<open>final\<close>. Either may throw; a decipher that rejects the
  ciphertext throws an error whose code is \<open>ERR_OSSL_BAD_DECRYPT\<close>. The private key and
  the decrypted text are strings whose UTF-8 encoding is the string itself.
\<close>

record crypto =
  sha256_hex :: "string \<Rightarrow> string"
  scryptSync :: "string \<Rightarrow> string \<Rightarrow> nat \<Rightarrow> string"
  cipher :: "string \<Rightarrow> string \<Rightarrow> string \<Rightarrow> js_error + string"
  decipher :: "string \<Rightarrow> string \<Rightarrow> string \<Rightarrow> js_error + string"

record wallet =
  wallet_address :: string
  wallet_privateKey :: string

text \<open>
  The log. Every call of \<open>logger.warn\<close> or \<open>logger.error\<close> appends one entry: the
  level, the message, and the fields of the payload object in the order written.
\<close>

datatype log_level = LogInfo | LogWarn | LogError

datatype log_value =
    VStr string
  | VNum nat
  | VBool bool
  | VUndefined
  | VStack
  | VError js_error

datatype log_entry = Log log_level string "(string \<times> log_value) list"

definition DEFAULT_KEY :: string where
  "DEFAULT_KEY = ''default-key-change-in-production''"

text \<open>
  The body of the \<open>try\<close> block of \<open>decryptPrivateKey\<close>: the result or the error thrown,
  with what was logged on the way.
\<close>

definition decryptPrivateKey_try ::
  "crypto \<Rightarrow> string \<Rightarrow> string \<Rightarrow> string \<Rightarrow> (js_error + string) \<times> log_entry list" where
  \<open>decryptPrivateKey_try C encryptionKey encryptedPrivateKey passwordHash =
     (if encryptedPrivateKey = [] then
        (Inl (Error ''Encrypted private key is required and must be a string'' None), [])
      else if passwordHash = [] then
        (Inl (Error ''Password hash is required for decryption'' None), [])
      else
        (let log0 =
               (if encryptionKey = DEFAULT_KEY
                then [Log LogWarn
                        ''Using default encryption key - this may cause decryption failures if key was changed''
                        []]
                else [])
         in case split_on (CHR '':'') encryptedPrivateKey of
              [iv_hex, data_hex] \<Rightarrow>
                if length iv_hex \<noteq> 32 \<or> \<not> isHex iv_hex then
                  (Inl (Error ''Invalid IV format in encrypted private key'' None),
                   log0 @ [Log LogError
                     (''Invalid IV format. IV must be 32 hex characters, got: ''
                        @ decimal (length iv_hex) @ '' chars'') []])
                else if length data_hex = 0 \<or> \<not> isHex data_hex then
                  (Inl (Error ''Invalid encrypted data format in private key'' None),
                   log0 @ [Log LogError
                     (''Invalid encrypted data format. Encrypted data must be hex string, got: ''
                        @ decimal (length data_hex) @ '' chars'') []])
                else
                  (let iv = fromHex iv_hex
                   in if length iv \<noteq> 16 then
                        (Inl (Error (''Invalid IV length: expected 16 bytes, got ''
                                       @ decimal (length iv)) None), log0)
                      else
                        (let encrypted = fromHex data_hex
                         in if length encrypted = 0 then
                              (Inl (Error ''Encrypted data is empty'' None), log0)
                            else
                              (let combinedKey = sha256_hex C (encryptionKey @ passwordHash);
                                   key = scryptSync C combinedKey ''salt'' 32
                               in case decipher C key iv encrypted of
                                    Inl err \<Rightarrow> (Inl err, log0)
                                  | Inr decrypted \<Rightarrow>
                                      if length decrypted = 0 then
                                        (Inl (Error ''Decryption resulted in empty private key'' None),
                                         log0)
                                      else
                                        (Inr decrypted,
                                         log0 @
                                         (if \<not> startsWith decrypted ''0x'' \<or> length decrypted \<noteq> 66
                                          then [Log LogWarn
                                                  (''Decrypted key format may be invalid. Expected 66-char hex string starting with 0x, got: ''
                                                     @ decimal (length decrypted) @ '' chars'') []]
                                          else [])))))
            | _ \<Rightarrow>
                (Inl (Error ''Invalid encrypted private key format - expected "iv:encrypted" format''
                        None),
                 log0 @ [Log LogError
                   (''Invalid encrypted key format. Expected format: "iv:encrypted", got: ''
                      @ take 20 encryptedPrivateKey @ ''...'') []])))\<close>

text \<open>
  \<open>decryptPrivateKey\<close>: the \<open>try\<close> block, then the \<open>catch\<close> block, which tells the
  rejected ciphertext, the malformed input and every other failure apart, logs, and
  throws.
\<close>

definition KEY_MISMATCH :: string where
  "KEY_MISMATCH =
     ''Failed to decrypt private key - ENCRYPTION_KEY may have changed or password hash mismatch''"

definition decryptPrivateKey ::
  "crypto \<Rightarrow> string \<Rightarrow> string \<Rightarrow> string \<Rightarrow> (js_error + string) \<times> log_entry list" where
  "decryptPrivateKey C encryptionKey encryptedPrivateKey passwordHash =
     (case decryptPrivateKey_try C encryptionKey encryptedPrivateKey passwordHash of
        (Inr decrypted, logged) \<Rightarrow> (Inr decrypted, logged)
      | (Inl err, logged) \<Rightarrow>
          if code err = Some ''ERR_OSSL_BAD_DECRYPT'' then
            (Inl (Error KEY_MISMATCH None),
             logged @ [Log LogError ''Decryption failed - possible causes:''
                      [(''error'', VStr (message err)),
                       (''hasEncryptionKey'', VBool (encryptionKey \<noteq> [])),
                       (''encryptionKeyLength'', VNum (length encryptionKey)),
                       (''passwordHashLength'', VNum (length passwordHash)),
                       (''encryptedKeyFormat'',
                          VNum (length (split_on (CHR '':'') encryptedPrivateKey))),
                       (''encryptedKeyLength'', VNum (length encryptedPrivateKey))]])
          else if str_includes (message err) ''Invalid'' \<or> str_includes (message err) ''format'' then
            (Inl err,
             logged @ [Log LogError ''Invalid encrypted key format:''
                      [(''error'', VStr (message err)),
                       (''keyPreview'',
                          VStr (if take 50 encryptedPrivateKey = [] then ''null''
                                else take 50 encryptedPrivateKey))]])
          else
            (Inl (Error (''Failed to decrypt private key: '' @ message err) None),
             logged @ [Log LogError ''Error decrypting private key:''
                      [(''error'', VStr (message err)),
                       (''code'', (case code err of None \<Rightarrow> VUndefined | Some c \<Rightarrow> VStr c)),
                       (''stack'', VStack)]]))"


text \<open>
  \<open>getWallet\<close>. The inner \<open>catch\<close> logs and throws; what it throws is caught, like an
  error of \<open>decryptPrivateKey\<close>, by the outer \<open>catch\<close>.
\<close>

definition getWallet_catch ::
  "js_error \<Rightarrow> log_entry list \<Rightarrow> (js_error + wallet) \<times> log_entry list" where
  "getWallet_catch err logged =
     (if str_includes (message err) ''ENCRYPTION_KEY'' \<or> str_includes (message err) ''password hash''
      then (Inl err, logged)
      else (Inl (Error (''Failed to get wallet: '' @ message err) None),
            logged @ [Log LogError ''Error getting wallet:''
                     [(''error'', VStr (message err)),
                      (''code'', (case code err of None \<Rightarrow> VUndefined | Some c \<Rightarrow> VStr c))]]))"

definition getWallet ::
  "crypto \<Rightarrow> (string \<Rightarrow> js_error + wallet) \<Rightarrow> string \<Rightarrow> string \<Rightarrow> string \<Rightarrow>
   (js_error + wallet) \<times> log_entry list" where
  "getWallet C newWallet encryptionKey encryptedPrivateKey passwordHash =
     (case decryptPrivateKey C encryptionKey encryptedPrivateKey passwordHash of
        (Inl err, logged) \<Rightarrow> getWallet_catch err logged
      | (Inr privateKey, logged) \<Rightarrow>
          (case newWallet privateKey of
             Inr w \<Rightarrow> (Inr w, logged)
           | Inl walletError \<Rightarrow>
               getWallet_catch
                 (Error ''Decrypted private key is invalid - key may be corrupted'' None)
                 (logged @ [Log LogError ''Failed to create wallet from decrypted key:''
                           [(''error'', VStr (message walletError)),
                            (''keyLength'', VNum (length privateKey)),
                            (''keyPreview'',
                               VStr (if take 10 privateKey = [] then ''null''
                                     else take 10 privateKey))]])))"

text \<open>
  \<open>getWalletBalance\<close>. The provider argument is \<open>None\<close> when no provider is passed, and
  otherwise the outcome of \<open>provider.getBalance\<close>, already formatted by
  \<open>ethers.formatEther\<close>.
\<close>

definition getWalletBalance_catch ::
  "string \<Rightarrow> string \<Rightarrow> js_error \<Rightarrow> log_entry list \<Rightarrow> (js_error + string) \<times> log_entry list" where
  "getWalletBalance_catch encryptedPrivateKey passwordHash err logged =
     (let log1 = logged @ [Log LogError ''Error getting wallet balance:''
                          [(''error'', VStr (message err)),
                           (''code'', (case code err of None \<Rightarrow> VUndefined | Some c \<Rightarrow> VStr c)),
                           (''hasEncryptedKey'', VBool (encryptedPrivateKey \<noteq> [])),
                           (''hasPasswordHash'', VBool (passwordHash \<noteq> []))]]
      in if str_includes (message err) ''ENCRYPTION_KEY'' \<or> str_includes (message err) ''password hash''
         then (Inl err, log1)
         else (Inl (Error (''Failed to get wallet balance: '' @ message err) None), log1))"

definition getWalletBalance ::
  "crypto \<Rightarrow> (string \<Rightarrow> js_error + wallet) \<Rightarrow> string \<Rightarrow> string \<Rightarrow> string \<Rightarrow>
   (js_error + string) option \<Rightarrow> (js_error + string) \<times> log_entry list" where
  "getWalletBalance C newWallet encryptionKey encryptedPrivateKey passwordHash provider =
     (if encryptedPrivateKey = [] then
        getWalletBalance_catch encryptedPrivateKey passwordHash
          (Error ''Encrypted private key is required'' None) []
      else if passwordHash = [] then
        getWalletBalance_catch encryptedPrivateKey passwordHash
          (Error ''Password hash is required for decryption'' None) []
      else
        (case getWallet C newWallet encryptionKey encryptedPrivateKey passwordHash of
           (Inl err, logged) \<Rightarrow> getWalletBalance_catch encryptedPrivateKey passwordHash err logged
         | (Inr w, logged) \<Rightarrow>
             (let fallback =
                    Log LogWarn (''Using fallback balance (0.0) for wallet '' @ wallet_address w) []
              in case provider of
                   None \<Rightarrow> (Inr ''0.0'', logged @ [fallback])
                 | Some (Inr balance) \<Rightarrow> (Inr balance, logged)
                 | Some (Inl providerError) \<Rightarrow>
                     (Inr ''0.0'',
                      logged @ [Log LogWarn ''Provider failed to get balance, using fallback:''
                               [(''address'', VStr (wallet_address w)),
                                (''error'', VStr (message providerError))],
                             fallback]))))"

text \<open>
  A stand-in for the parameters, to run the model on concrete inputs. Its cipher
  writes the key before the plaintext and its decipher rejects a ciphertext that does
  not start with the key; its wallet constructor accepts \<open>0x\<close> followed by 64
  hexadecimal digits.
\<close>

definition sample_crypto :: crypto where
  "sample_crypto =
     \<lparr>sha256_hex = (\<lambda>s. s),
      scryptSync = (\<lambda>password salt n. take n (password @ replicate n (CHR ''0''))),
      cipher = (\<lambda>key iv plaintext. Inr (key @ plaintext)),
      decipher = (\<lambda>key iv data.
         if take (length key) data = key then Inr (drop (length key) data)
         else Inl (Error ''error:1C800064:Provider routines::bad decrypt''
                     (Some ''ERR_OSSL_BAD_DECRYPT'')))\<rparr>"

definition sample_newWallet :: "string \<Rightarrow> js_error + wallet" where
  "sample_newWallet key =
     (if length key = 66 \<and> startsWith key ''0x'' \<and> isHex (drop 2 key)
      then Inr \<lparr>wallet_address = ''0x'' @ take 40 (drop 2 key), wallet_privateKey = key\<rparr>
      else Inl (Error ''invalid private key'' (Some ''INVALID_ARGUMENT'')))"

text \<open>
  The symmetric key that both \<open>encryptPrivateKey\<close> and \<open>decryptPrivateKey\<close> derive from
  the master key and the password hash, named for use in the statements below.
\<close>

definition derived_key :: "crypto \<Rightarrow> string \<Rightarrow> string \<Rightarrow> string" where
  "derived_key C encryptionKey passwordHash =
     scryptSync C (sha256_hex C (encryptionKey @ passwordHash)) ''salt'' 32"

section \<open>EscrowController\<close>

text \<open>
  The escrow service and the document store are collaborators of the controller. A
  call of the escrow service is modelled by its outcome: the error it throws, or the
  transaction handle it returns, whose \<open>wait()\<close> in turn throws or yields a receipt
  (or \<open>null\<close>). A log of a receipt is modelled by what \<open>contract.interface.parseLog\<close>
  does with it: it throws, it returns \<open>null\<close> (no event of the ABI matches), or it
  returns an event with a name and arguments. Of an argument only its type matters
  here, and for a \<open>bigint\<close> its value.
\<close>

datatype js_value = JUndefined | JBigInt int | JNumber int | JString string

datatype chain_log = ParseThrows | ParseNull | Event string "js_value list"

record receipt =
  logs :: "chain_log list option"

record chain_tx =
  hash :: string
  waited :: "js_error + receipt option"

text \<open>
  The transaction mirror, as the \<open>Transaction\<close> model stores it. Left out are the
  sanitised \<open>metadata\<close> and \<open>conversationContext\<close> and the \<open>createdAt\<close> and \<open>updatedAt\<close>
  stamps; \<open>m_amount\<close> holds the text that \<open>parseFloat\<close> reads the amount from. A
  time stamp is the clock value in milliseconds that \<open>Date.now\<close> or \<open>new Date()\<close> yields.
\<close>

record timeline_entry =
  t_status :: string
  t_timestamp :: nat
  t_description :: string
  t_actor :: string

record dispute_record =
  d_reason :: string
  d_evidence :: "string list"
  d_createdAt :: nat

record transaction_mirror =
  m_transactionId :: string
  m_escrowId :: string
  m_buyerEmail :: string
  m_sellerEmail :: string
  m_amount :: string
  m_currency :: string
  m_status :: string
  m_type :: string
  m_timeline :: "timeline_entry list"
  m_dispute :: "dispute_record option"

record MilestoneDto =
  ms_amount :: string
  ms_description :: string

record MetadataDto =
  md_title :: "string option"
  md_description :: "string option"
  md_milestones :: "MilestoneDto list option"







text \<open>
  The part of \<open>createEscrow\<close> that recovers the escrow id from the receipt. \<open>find\<close>
  returns the first log that parses, without throwing, to an event named
  \<open>EscrowCreated\<close>; the id is its first argument, which must be a non-zero \<open>bigint\<close>
  whose \<open>Number\<close> is a positive integer. \<open>Number\<close> of a \<open>bigint\<close> is the integer itself
  for the ids below \<open>2^53\<close>, which the model takes it to be throughout. An event with
  no argument at all reads as \<open>undefined\<close> at index \<open>0\<close>.
\<close>

definition is_EscrowCreated :: "chain_log \<Rightarrow> bool" where
  "is_EscrowCreated l =
     (case l of Event n args \<Rightarrow> n = ''EscrowCreated'' | _ \<Rightarrow> False)"



text \<open>
  \<open>Transaction.findOneAndUpdate({escrowId}, update)\<close> changes the first mirror with that
  escrow id and leaves a store without such a mirror as it is.
\<close>

fun findOneAndUpdate ::
  "string \<Rightarrow> (transaction_mirror \<Rightarrow> transaction_mirror) \<Rightarrow> transaction_mirror list \<Rightarrow>
   transaction_mirror list" where
  "findOneAndUpdate escrowId update [] = []"
| "findOneAndUpdate escrowId update (d # ds) =
     (if m_escrowId d = escrowId then update d # ds
      else d # findOneAndUpdate escrowId update ds)"







section \<open>BlockchainService\<close>

text \<open>
  A connection object of the \<open>ethers\<close> library is a value of a type \<open>'p\<close>. The
  constructor \<open>new ethers.JsonRpcProvider(url, options)\<close> and the liveness probe
  \<open>provider.getNetwork()\<close> are parameters: \<open>newJsonRpcProvider\<close> yields the connection or the
  error thrown, \<open>alive\<close> says whether the probe succeeds. A chain id is a natural number.
\<close>

record ProviderConfig =
  rpcUrl :: string
  chainId :: "nat option"
  name :: string
  timeout :: "nat option"

record providerOptions =
  o_timeout :: nat
  o_name :: "string option"
  o_chainId :: "nat option"

record 'p signer =
  s_privateKey :: string
  s_provider :: 'p

record 'p bound_contract =
  c_target :: string
  c_fragments :: "string list"
  c_runner :: "'p signer"

text \<open>
  The state of a service instance, and beside it the class-level \<open>providerCache\<close>, a
  \<open>Map\<close> from cache keys to connections that all instances share: the list of its
  entries in insertion order. \<open>set\<close> is only called for a key the map does not hold,
  so it adds an entry at the end.
\<close>

record 'p service =
  providerConfig :: ProviderConfig
  provider :: 'p
  wallet :: "'p signer"
  contract :: "'p bound_contract"

definition cacheKey :: "ProviderConfig \<Rightarrow> string" where
  "cacheKey config =
     rpcUrl config @ ''-'' @
     (case chainId config of
        None \<Rightarrow> ''default''
      | Some n \<Rightarrow> if n = 0 then ''default'' else decimal n)"

definition initializeProvider ::
  "(string \<Rightarrow> providerOptions \<Rightarrow> js_error + 'p) \<Rightarrow> ProviderConfig \<Rightarrow> (string \<times> 'p) list \<Rightarrow>
   (js_error + 'p) \<times> (string \<times> 'p) list" where
  "initializeProvider newJsonRpcProvider config cache =
     (case map_of cache (cacheKey config) of
        Some cachedProvider \<Rightarrow> (Inr cachedProvider, cache)
      | None \<Rightarrow>
          (let opts0 =
                 \<lparr>o_timeout = (case timeout config of
                                 None \<Rightarrow> 10000
                               | Some t \<Rightarrow> if t = 0 then 10000 else t),
                  o_name = None, o_chainId = None\<rparr>;
               opts =
                 (case chainId config of
                    None \<Rightarrow> opts0
                  | Some n \<Rightarrow>
                      if n > 0 then opts0\<lparr>o_name := Some (name config), o_chainId := Some n\<rparr>
                      else opts0)
           in case newJsonRpcProvider (rpcUrl config) opts of
                Inl err \<Rightarrow>
                  (Inl (Error (''Provider initialization failed for '' @ name config) None),
                   cache)
              | Inr p \<Rightarrow> (Inr p, cache @ [(cacheKey config, p)])))"

definition testProviderConnection :: "('p \<Rightarrow> bool) \<Rightarrow> 'p \<Rightarrow> bool" where
  "testProviderConnection alive p = alive p"

text \<open>
  \<open>switchProvider\<close>. Every throw inside the \<open>try\<close> is caught and replaced by the error
  \<open>Provider switch failed\<close>. The wallet is rebuilt from the private key of the present
  wallet and the contract from the target and the fragments of the present contract;
  both constructors have accepted these values before and do not throw.
\<close>

definition switchProvider ::
  "(string \<Rightarrow> providerOptions \<Rightarrow> js_error + 'p) \<Rightarrow> ('p \<Rightarrow> bool) \<Rightarrow> ProviderConfig \<Rightarrow>
   'p service \<Rightarrow> (string \<times> 'p) list \<Rightarrow> (js_error + unit) \<times> 'p service \<times> (string \<times> 'p) list" where
  "switchProvider newJsonRpcProvider alive newConfig this cache =
     (case initializeProvider newJsonRpcProvider newConfig cache of
        (Inl err, cache1) \<Rightarrow> (Inl (Error ''Provider switch failed'' None), this, cache1)
      | (Inr newProvider, cache1) \<Rightarrow>
          if \<not> testProviderConnection alive newProvider then
            (Inl (Error ''Provider switch failed'' None), this, cache1)
          else
            (let this1 = this\<lparr>providerConfig := newConfig\<rparr>;
                 this2 = this1\<lparr>provider := newProvider\<rparr>;
                 this3 = this2\<lparr>wallet :=
                            \<lparr>s_privateKey = s_privateKey (wallet this2),
                             s_provider = provider this2\<rparr>\<rparr>;
                 this4 = this3\<lparr>contract :=
                            \<lparr>c_target = c_target (contract this3),
                             c_fragments = c_fragments (contract this3),
                             c_runner = wallet this3\<rparr>\<rparr>
             in (Inr (), this4, cache1)))"

text \<open>
  The references of an instance agree when the wallet signs through the instance's
  connection and the contract is bound to the instance's wallet.
\<close>

definition references_agree :: "'p service \<Rightarrow> bool" where
  "references_agree this =
     (s_provider (wallet this) = provider this \<and> c_runner (contract this) = wallet this)"

text \<open>
  A stand-in for the two parameters, to run the model on concrete inputs: a connection
  is named by its URL, every construction succeeds, and every endpoint but
  \<open>https://unreachable.example\<close> answers the probe.
\<close>

definition sample_newJsonRpcProvider :: "string \<Rightarrow> providerOptions \<Rightarrow> js_error + string" where
  "sample_newJsonRpcProvider url opts = Inr url"

definition sample_alive :: "string \<Rightarrow> bool" where
  "sample_alive p = (p \<noteq> ''https://unreachable.example'')"

definition sample_service :: "string service" where
  "sample_service =
     \<lparr>providerConfig =
        \<lparr>rpcUrl = ''https://sepolia.base.org'', chainId = Some 84532,
         name = ''Base Sepolia'', timeout = Some 10000\<rparr>,
      provider = ''https://sepolia.base.org'',
      wallet =
        \<lparr>s_privateKey = ''0x4c0883a69102937d6231471b5dbb6204fe5129617082792ae468d01a3f362318'',
         s_provider = ''https://sepolia.base.org''\<rparr>,
      contract =
        \<lparr>c_target = ''0x4200000000000000000000000000000000000006'',
         c_fragments = [''function releasePayment(uint256 escrowId, uint256 milestoneIndex) external''],
         c_runner =
           \<lparr>s_privateKey = ''0x4c0883a69102937d6231471b5dbb6204fe5129617082792ae468d01a3f362318'',
            s_provider = ''https://sepolia.base.org''\<rparr>\<rparr>\<rparr>"

section \<open>Properties of the token registry\<close>

lemma char_lower_not_capital:
  "\<not> (65 \<le> (of_char (char_lower c) :: nat) \<and> (of_char (char_lower c) :: nat) \<le> 90)"
  by (auto simp: char_lower_def Let_def)

lemma toLowerCase_no_capital:
  assumes "65 \<le> (of_char c :: nat)" and "(of_char c :: nat) \<le> 90"
  shows "c \<notin> set (toLowerCase a)"
proof
  assume "c \<in> set (toLowerCase a)"
  then obtain d where "char_lower d = c"
    by (auto simp: toLowerCase_def)
  with char_lower_not_capital [of d] assms show False
    by simp
qed

lemma toLowerCase_neq_usdc:
  "toLowerCase a \<noteq> ''0x036CbD53842c5426634e7929541eC2318f3dCF7e''"
proof
  assume h: "toLowerCase a = ''0x036CbD53842c5426634e7929541eC2318f3dCF7e''"
  have "CHR ''C'' \<notin> set (toLowerCase a)"
    by (rule toLowerCase_no_capital) simp_all
  with h show False
    by simp
qed

lemma toLowerCase_usdc:
  "toLowerCase ''0x036CbD53842c5426634e7929541eC2318f3dCF7e''
     = ''0x036cbd53842c5426634e7929541ec2318f3dcf7e''"
  by (simp add: toLowerCase_def char_lower_def char_of_eq_iff)

lemma getTokenInfo_lower_usdc:
  assumes "toLowerCase a = ''0x036cbd53842c5426634e7929541ec2318f3dcf7e''"
  shows "getTokenInfo a = None"
  using assms
  by (simp add: getTokenInfo_def object_get_def BASE_SEPOLIA_TOKENS_def
      Object_prototype_names_def)

lemma getTokenSymbol_None:
  "getTokenInfo a = None \<Longrightarrow> getTokenSymbol a = ''UNKNOWN''"
  by (simp add: getTokenSymbol_def)

lemma getTokenInfo_Entry:
  assumes "getTokenInfo a = Some (Entry i)"
  shows "(toLowerCase a, i) \<in> set BASE_SEPOLIA_TOKENS"
proof -
  from assms have "map_of BASE_SEPOLIA_TOKENS (toLowerCase a) = Some i"
    by (auto simp: getTokenInfo_def object_get_def Let_def split: option.splits if_splits)
  then show ?thesis
    by (rule map_of_SomeD)
qed

lemma registry_key_cases:
  assumes "(k, i) \<in> set BASE_SEPOLIA_TOKENS"
  shows "k = ''0x0000000000000000000000000000000000000000''
       \<or> k = ''0x036CbD53842c5426634e7929541eC2318f3dCF7e''
       \<or> k = ''0x4200000000000000000000000000000000000006''"
  using assms unfolding BASE_SEPOLIA_TOKENS_def by auto

lemma not_upper_zero: "\<not> has_upper_hex ''0x0000000000000000000000000000000000000000''"
  by (simp add: has_upper_hex_def)

lemma not_upper_weth: "\<not> has_upper_hex ''0x4200000000000000000000000000000000000006''"
  by (simp add: has_upper_hex_def)

lemma upper_usdc: "has_upper_hex ''0x036CbD53842c5426634e7929541eC2318f3dCF7e''"
  by (simp add: has_upper_hex_def)

text \<open>
  C10. \<open>getTokenInfo\<close> lowercases the queried address, and the registry keeps the USDC
  key in checksummed mixed case. So for every registry key with an uppercase hex letter,
  whatever casing of that key is queried, \<open>getTokenInfo\<close> returns \<open>null\<close> and
  \<open>getTokenSymbol\<close> returns \<open>UNKNOWN\<close> (the USDC address itself included); an entry that
  is returned always belongs to one of the two all-lowercase keys, the zero address and
  the WETH address, and those two are returned for every casing of the query.
\<close>

theorem getTokenInfo_mixed_case_key_unreachable:
  "(\<forall>(k, i) \<in> set BASE_SEPOLIA_TOKENS. has_upper_hex k \<longrightarrow>
      (\<forall>a. toLowerCase a = toLowerCase k \<longrightarrow>
         getTokenInfo a = None \<and> getTokenSymbol a = ''UNKNOWN''))
   \<and> getTokenInfo ''0x036CbD53842c5426634e7929541eC2318f3dCF7e'' = None
   \<and> getTokenSymbol ''0x036CbD53842c5426634e7929541eC2318f3dCF7e'' = ''UNKNOWN''
   \<and> (\<forall>a i. getTokenInfo a = Some (Entry i) \<longrightarrow>
         (toLowerCase a, i) \<in> set BASE_SEPOLIA_TOKENS
         \<and> \<not> has_upper_hex (toLowerCase a)
         \<and> (toLowerCase a = ''0x0000000000000000000000000000000000000000''
            \<or> toLowerCase a = ''0x4200000000000000000000000000000000000006''))
   \<and> (\<forall>a. toLowerCase a = ''0x0000000000000000000000000000000000000000'' \<longrightarrow>
         getTokenInfo a = Some (Entry \<lparr>symbol = ''ETH'', decimals = 18, tokenName = ''Ethereum''\<rparr>))
   \<and> (\<forall>a. toLowerCase a = ''0x4200000000000000000000000000000000000006'' \<longrightarrow>
         getTokenInfo a
           = Some (Entry \<lparr>symbol = ''WETH'', decimals = 18, tokenName = ''Wrapped Ethereum''\<rparr>))"
proof (intro conjI)
  show "\<forall>(k, i) \<in> set BASE_SEPOLIA_TOKENS. has_upper_hex k \<longrightarrow>
      (\<forall>a. toLowerCase a = toLowerCase k \<longrightarrow>
         getTokenInfo a = None \<and> getTokenSymbol a = ''UNKNOWN'')"
  proof (clarify, intro conjI)
    fix k i a
    assume k: "(k, i) \<in> set BASE_SEPOLIA_TOKENS" and u: "has_upper_hex k"
      and a: "toLowerCase a = toLowerCase k"
    from registry_key_cases [OF k] u not_upper_zero not_upper_weth
    have "k = ''0x036CbD53842c5426634e7929541eC2318f3dCF7e''"
      by blast
    with a have "toLowerCase a = ''0x036cbd53842c5426634e7929541ec2318f3dcf7e''"
      by (simp add: toLowerCase_usdc)
    then show "getTokenInfo a = None"
      by (rule getTokenInfo_lower_usdc)
    then show "getTokenSymbol a = ''UNKNOWN''"
      by (rule getTokenSymbol_None)
  qed
next
  show n: "getTokenInfo ''0x036CbD53842c5426634e7929541eC2318f3dCF7e'' = None"
    by (rule getTokenInfo_lower_usdc) (rule toLowerCase_usdc)
  show "getTokenSymbol ''0x036CbD53842c5426634e7929541eC2318f3dCF7e'' = ''UNKNOWN''"
    using n by (rule getTokenSymbol_None)
next
  show "\<forall>a i. getTokenInfo a = Some (Entry i) \<longrightarrow>
         (toLowerCase a, i) \<in> set BASE_SEPOLIA_TOKENS
         \<and> \<not> has_upper_hex (toLowerCase a)
         \<and> (toLowerCase a = ''0x0000000000000000000000000000000000000000''
            \<or> toLowerCase a = ''0x4200000000000000000000000000000000000006'')"
  proof (intro allI impI)
    fix a i
    assume "getTokenInfo a = Some (Entry i)"
    then have m: "(toLowerCase a, i) \<in> set BASE_SEPOLIA_TOKENS"
      by (rule getTokenInfo_Entry)
    then have d: "toLowerCase a = ''0x0000000000000000000000000000000000000000''
            \<or> toLowerCase a = ''0x4200000000000000000000000000000000000006''"
      using registry_key_cases [OF m] toLowerCase_neq_usdc [of a] by blast
    then have "\<not> has_upper_hex (toLowerCase a)"
      using not_upper_zero not_upper_weth by metis
    with m d show "(toLowerCase a, i) \<in> set BASE_SEPOLIA_TOKENS
         \<and> \<not> has_upper_hex (toLowerCase a)
         \<and> (toLowerCase a = ''0x0000000000000000000000000000000000000000''
            \<or> toLowerCase a = ''0x4200000000000000000000000000000000000006'')"
      by blast
  qed
next
  show "\<forall>a. toLowerCase a = ''0x0000000000000000000000000000000000000000'' \<longrightarrow>
         getTokenInfo a = Some (Entry \<lparr>symbol = ''ETH'', decimals = 18, tokenName = ''Ethereum''\<rparr>)"
    by (simp add: getTokenInfo_def object_get_def BASE_SEPOLIA_TOKENS_def)
next
  show "\<forall>a. toLowerCase a = ''0x4200000000000000000000000000000000000006'' \<longrightarrow>
         getTokenInfo a
           = Some (Entry \<lparr>symbol = ''WETH'', decimals = 18, tokenName = ''Wrapped Ethereum''\<rparr>)"
    by (simp add: getTokenInfo_def object_get_def BASE_SEPOLIA_TOKENS_def)
qed

theorem getTokenInfo_mixed_case_key_unreachable_witness:
  "has_upper_hex ''0x036CbD53842c5426634e7929541eC2318f3dCF7e''
   \<and> getTokenInfo ''0x036cbd53842c5426634e7929541ec2318f3dcf7e'' = None
   \<and> getTokenSymbol ''0X036CBD53842C5426634E7929541EC2318F3DCF7E'' = ''UNKNOWN''
   \<and> getTokenInfo ''0X4200000000000000000000000000000000000006''
       = Some (Entry \<lparr>symbol = ''WETH'', decimals = 18, tokenName = ''Wrapped Ethereum''\<rparr>)"
proof -
  let ?usdc = "''0x036CbD53842c5426634e7929541eC2318f3dCF7e''"
  have k: "(?usdc, \<lparr>symbol = ''USDC'', decimals = 6, tokenName = ''USD Coin''\<rparr>)
             \<in> set BASE_SEPOLIA_TOKENS"
    by (simp add: BASE_SEPOLIA_TOKENS_def)
  have u: "has_upper_hex ?usdc"
    by (rule upper_usdc)
  have "toLowerCase ''0x036cbd53842c5426634e7929541ec2318f3dcf7e''
          = ''0x036cbd53842c5426634e7929541ec2318f3dcf7e''"
    by (simp add: toLowerCase_def char_lower_def char_of_eq_iff)
  then have l1: "toLowerCase ''0x036cbd53842c5426634e7929541ec2318f3dcf7e'' = toLowerCase ?usdc"
    by (simp only: toLowerCase_usdc)
  have "toLowerCase ''0X036CBD53842C5426634E7929541EC2318F3DCF7E''
          = ''0x036cbd53842c5426634e7929541ec2318f3dcf7e''"
    by (simp add: toLowerCase_def char_lower_def char_of_eq_iff)
  then have l2: "toLowerCase ''0X036CBD53842C5426634E7929541EC2318F3DCF7E'' = toLowerCase ?usdc"
    by (simp only: toLowerCase_usdc)
  have l3: "toLowerCase ''0X4200000000000000000000000000000000000006''
              = ''0x4200000000000000000000000000000000000006''"
    by (simp add: toLowerCase_def char_lower_def char_of_eq_iff)
  from k u l1 l2 l3 getTokenInfo_mixed_case_key_unreachable show ?thesis
    by blast
qed


section \<open>Properties of the safety service\<close>

subsection \<open>Score composition\<close>








lemma mapRiskLevel_word:
  "mapRiskLevel s = ''low'' \<or> mapRiskLevel s = ''medium''
   \<or> mapRiskLevel s = ''high'' \<or> mapRiskLevel s = ''critical''"
  by (simp add: mapRiskLevel_def)

lemma checkWalletSafety_returning:
  "checkWalletSafety chain (Inr d) =
     (let t = (if chain = ''ethereum'' \<or> chain = ''base'' then d else None)
      in \<lparr>riskLevel = mapRiskLevel (calculateRiskScore t None),
          score = calculateRiskScore t None,
          reasons = generateReasons t None,
          recommendation = generateRecommendation (mapRiskLevel (calculateRiskScore t None)),
          providers = (if t \<noteq> None then [''dd.xyz''] else [])\<rparr>)"
  by (simp add: checkWalletSafety_def Let_def)



lemma checkWalletSafety_no_data:
  "checkWalletSafety chain (Inr None) =
     \<lparr>riskLevel = ''low'', score = 100,
      reasons = [''No specific risk factors identified''],
      recommendation = SafeToProceed, providers = []\<rparr>"
  by (simp add: checkWalletSafety_returning calculateRiskScore_def mapRiskLevel_def
      generateReasons_def generateRecommendation_def Let_def)





subsection \<open>Unavailable providers\<close>




subsection \<open>Overall risk and the payment decision\<close>

lemma calculateOverallRisk_Cons:
  "calculateOverallRisk (r # rs) =
     Inr (foldl (\<lambda>max current.
            if getRiskPriority (riskLevel current) > getRiskPriority (riskLevel max)
            then current else max) r rs)"
  by (simp add: calculateOverallRisk_def)

text \<open>
  The left fold that keeps the current element only when it is strictly greater returns
  the first element of greatest priority: everything before it is strictly smaller,
  nothing after it is greater.
\<close>

lemma foldl_first_max:
  fixes P :: "'a \<Rightarrow> nat"
  shows "\<exists>ys zs. r # rs = ys @ foldl (\<lambda>m c. if P c > P m then c else m) r rs # zs
           \<and> (\<forall>y \<in> set ys. P y < P (foldl (\<lambda>m c. if P c > P m then c else m) r rs))
           \<and> (\<forall>z \<in> set zs. P z \<le> P (foldl (\<lambda>m c. if P c > P m then c else m) r rs))"
proof (induction rs rule: rev_induct)
  case Nil
  have "[r] = [] @ r # []" by simp
  then show ?case by fastforce
next
  case (snoc x rs)
  let ?f = "\<lambda>m c. if P c > P m then c else m"
  let ?o = "foldl ?f r rs"
  from snoc obtain ys zs where s: "r # rs = ys @ ?o # zs"
    and lt: "\<forall>y \<in> set ys. P y < P ?o" and le: "\<forall>z \<in> set zs. P z \<le> P ?o"
    by blast
  show ?case
  proof (cases "P x > P ?o")
    case True
    then have o': "foldl ?f r (rs @ [x]) = x" by simp
    have "r # rs @ [x] = (r # rs) @ x # []" by simp
    moreover have "\<forall>y \<in> set (r # rs). P y < P x"
      using s lt le True by (simp only: s) fastforce
    ultimately show ?thesis
      unfolding o' by (metis empty_iff empty_set)
  next
    case False
    then have o': "foldl ?f r (rs @ [x]) = ?o" by simp
    have "r # rs @ [x] = ys @ ?o # (zs @ [x])" using s by simp
    moreover have "\<forall>z \<in> set (zs @ [x]). P z \<le> P ?o"
      using le False by auto
    ultimately show ?thesis
      unfolding o' using lt by blast
  qed
qed

lemma calculateOverallRisk_first_max:
  "\<exists>ys overall zs.
      calculateOverallRisk (r # rs) = Inr overall
      \<and> r # rs = ys @ overall # zs
      \<and> (\<forall>y \<in> set ys. getRiskPriority (riskLevel y) < getRiskPriority (riskLevel overall))
      \<and> (\<forall>z \<in> set zs. getRiskPriority (riskLevel z) \<le> getRiskPriority (riskLevel overall))"
  using foldl_first_max [of r rs "\<lambda>x. getRiskPriority (riskLevel x)"]
  unfolding calculateOverallRisk_Cons by blast

lemma getRiskPriority_words:
  "getRiskPriority ''low'' = 1" "getRiskPriority ''medium'' = 2"
  "getRiskPriority ''high'' = 3" "getRiskPriority ''critical'' = 4"
  by (simp_all add: getRiskPriority_def)

lemma determinePaymentMethod_cases:
  "determinePaymentMethod r =
     (if riskLevel r = ''critical'' then blocked
      else if riskLevel r = ''low'' then direct else escrow)"
  by (simp add: determinePaymentMethod_def)

lemma enhancedTransactionSafety_Some:
  "enhancedTransactionSafety (Some c) b v t =
     (case calculateOverallRisk
             [checkWalletSafety (toLowerCase c) b, checkWalletSafety (toLowerCase c) v,
              checkTransactionSafety (Some c) t] of
        Inl err \<Rightarrow> getFallbackTransactionSafety
      | Inr overallRisk \<Rightarrow>
          \<lparr>isApproved = (determinePaymentMethod overallRisk \<noteq> blocked),
           safetyData = overallRisk,
           requiresEscrow = (determinePaymentMethod overallRisk = escrow),
           recommendedAction = getRecommendedAction overallRisk,
           paymentMethod = determinePaymentMethod overallRisk\<rparr>)"
  by (simp add: enhancedTransactionSafety_def Let_def cong: sum.case_cong)

lemma calculateOverallRisk_three:
  "calculateOverallRisk [b, v, t] =
     Inr (if getRiskPriority (riskLevel v) > getRiskPriority (riskLevel b)
          then (if getRiskPriority (riskLevel t) > getRiskPriority (riskLevel v) then t else v)
          else (if getRiskPriority (riskLevel t) > getRiskPriority (riskLevel b) then t else b))"
  by (simp add: calculateOverallRisk_Cons)

lemma enhancedTransactionSafety_overall:
  "\<exists>overall.
     calculateOverallRisk
       [checkWalletSafety (toLowerCase c) b, checkWalletSafety (toLowerCase c) v,
        checkTransactionSafety (Some c) t] = Inr overall
     \<and> safetyData (enhancedTransactionSafety (Some c) b v t) = overall
     \<and> paymentMethod (enhancedTransactionSafety (Some c) b v t)
         = determinePaymentMethod overall"
  by (simp add: enhancedTransactionSafety_Some calculateOverallRisk_Cons)

lemma decision_flags:
  "isApproved (enhancedTransactionSafety chain b v t)
     = (paymentMethod (enhancedTransactionSafety chain b v t) \<noteq> blocked)
   \<and> requiresEscrow (enhancedTransactionSafety chain b v t)
     = (paymentMethod (enhancedTransactionSafety chain b v t) = escrow)
   \<and> paymentMethod (enhancedTransactionSafety chain b v t)
     = determinePaymentMethod (safetyData (enhancedTransactionSafety chain b v t))"
proof (cases chain)
  case None
  then show ?thesis
    by (simp add: enhancedTransactionSafety_def getFallbackTransactionSafety_def
        determinePaymentMethod_def)
next
  case (Some c)
  then show ?thesis
    by (simp add: enhancedTransactionSafety_Some calculateOverallRisk_Cons)
qed

text \<open>
  C4. \<open>determinePaymentMethod\<close> maps the level \<open>critical\<close> to \<open>blocked\<close>, \<open>high\<close> and
  \<open>medium\<close> to \<open>escrow\<close>, \<open>low\<close> to \<open>direct\<close>, and every other level to \<open>escrow\<close>; and in
  every decision that \<open>enhancedTransactionSafety\<close> returns, the fallback decision
  included, \<open>isApproved\<close> holds exactly when the payment method is not \<open>blocked\<close>,
  \<open>requiresEscrow\<close> exactly when it is \<open>escrow\<close>, and the payment method is the one
  determined from the decision's own assessment.
\<close>

theorem determinePaymentMethod_decision:
  "(riskLevel r = ''critical'' \<longrightarrow> determinePaymentMethod r = blocked)
   \<and> (riskLevel r = ''high'' \<longrightarrow> determinePaymentMethod r = escrow)
   \<and> (riskLevel r = ''medium'' \<longrightarrow> determinePaymentMethod r = escrow)
   \<and> (riskLevel r = ''low'' \<longrightarrow> determinePaymentMethod r = direct)
   \<and> (riskLevel r \<notin> {''critical'', ''high'', ''medium'', ''low''} \<longrightarrow>
        determinePaymentMethod r = escrow)
   \<and> isApproved (enhancedTransactionSafety chain b v t)
       = (paymentMethod (enhancedTransactionSafety chain b v t) \<noteq> blocked)
   \<and> requiresEscrow (enhancedTransactionSafety chain b v t)
       = (paymentMethod (enhancedTransactionSafety chain b v t) = escrow)
   \<and> paymentMethod (enhancedTransactionSafety chain b v t)
       = determinePaymentMethod (safetyData (enhancedTransactionSafety chain b v t))"
  using decision_flags [of chain b v t]
  by (simp add: determinePaymentMethod_def)

theorem determinePaymentMethod_decision_witness:
  "determinePaymentMethod (getFallbackSafety ''URL verification unavailable'') = escrow
   \<and> determinePaymentMethod
        \<lparr>riskLevel = ''critical'', score = 10, reasons = [],
         recommendation = CriticalRiskDoNotProceed, providers = [''dd.xyz'']\<rparr> = blocked
   \<and> determinePaymentMethod
        \<lparr>riskLevel = ''high'', score = 40, reasons = [],
         recommendation = HighRiskConsiderAvoiding, providers = [''dd.xyz'']\<rparr> = escrow
   \<and> determinePaymentMethod
        \<lparr>riskLevel = ''low'', score = 90, reasons = [],
         recommendation = SafeToProceed, providers = [''dd.xyz'']\<rparr> = direct
   \<and> determinePaymentMethod
        \<lparr>riskLevel = ''unknown'', score = 90, reasons = [],
         recommendation = UnableToAssess, providers = [''dd.xyz'']\<rparr> = escrow
   \<and> isApproved (enhancedTransactionSafety None (Inr None) (Inr None) (Inr None))
   \<and> requiresEscrow (enhancedTransactionSafety None (Inr None) (Inr None) (Inr None))"
proof -
  have m: "riskLevel (getFallbackSafety ''URL verification unavailable'') = ''medium''"
    by (simp add: getFallbackSafety_def)
  have f: "paymentMethod (enhancedTransactionSafety None (Inr None) (Inr None) (Inr None))
             = escrow"
    by (simp add: enhancedTransactionSafety_def getFallbackTransactionSafety_def)
  have u: "''unknown'' \<notin> {''critical'', ''high'', ''medium'', ''low''}"
    by simp
  from m f u
    determinePaymentMethod_decision
      [of "getFallbackSafety ''URL verification unavailable''" None "Inr None" "Inr None"
          "Inr None"]
    determinePaymentMethod_decision
      [of "\<lparr>riskLevel = ''critical'', score = 10, reasons = [],
         recommendation = CriticalRiskDoNotProceed, providers = [''dd.xyz'']\<rparr>"]
    determinePaymentMethod_decision
      [of "\<lparr>riskLevel = ''high'', score = 40, reasons = [],
         recommendation = HighRiskConsiderAvoiding, providers = [''dd.xyz'']\<rparr>"]
    determinePaymentMethod_decision
      [of "\<lparr>riskLevel = ''low'', score = 90, reasons = [],
         recommendation = SafeToProceed, providers = [''dd.xyz'']\<rparr>"]
    determinePaymentMethod_decision
      [of "\<lparr>riskLevel = ''unknown'', score = 90, reasons = [],
         recommendation = UnableToAssess, providers = [''dd.xyz'']\<rparr>"]
  show ?thesis
    by simp
qed

text \<open>
  C6. For every three assessments whose levels are among \<open>low\<close>, \<open>medium\<close>, \<open>high\<close>
  and \<open>critical\<close> (priorities 1 to 4 in that order), the overall assessment is one of
  the three: the first, in the order buyer, vendor, transaction, of those with the
  greatest priority. \<open>enhancedTransactionSafety\<close> returns as its assessment the overall
  assessment of its three checks, and when these are low, critical and low, the
  assessment it returns is critical and the payment method is \<open>blocked\<close>.
\<close>

theorem calculateOverallRisk_first_highest:
  assumes "\<forall>r \<in> set [buyer, vendor, transaction].
             riskLevel r \<in> {''low'', ''medium'', ''high'', ''critical''}"
  shows "(\<exists>ys overall zs.
            calculateOverallRisk [buyer, vendor, transaction] = Inr overall
            \<and> [buyer, vendor, transaction] = ys @ overall # zs
            \<and> (\<forall>y \<in> set ys.
                  getRiskPriority (riskLevel y) < getRiskPriority (riskLevel overall))
            \<and> (\<forall>z \<in> set zs.
                  getRiskPriority (riskLevel z) \<le> getRiskPriority (riskLevel overall)))
         \<and> getRiskPriority ''low'' < getRiskPriority ''medium''
         \<and> getRiskPriority ''medium'' < getRiskPriority ''high''
         \<and> getRiskPriority ''high'' < getRiskPriority ''critical''
         \<and> calculateOverallRisk
              [checkWalletSafety (toLowerCase c) b, checkWalletSafety (toLowerCase c) v,
               checkTransactionSafety (Some c) t]
             = Inr (safetyData (enhancedTransactionSafety (Some c) b v t))
         \<and> (riskLevel (checkWalletSafety (toLowerCase c) b) = ''low''
              \<and> riskLevel (checkWalletSafety (toLowerCase c) v) = ''critical''
              \<and> riskLevel (checkTransactionSafety (Some c) t) = ''low''
            \<longrightarrow> riskLevel (safetyData (enhancedTransactionSafety (Some c) b v t)) = ''critical''
              \<and> paymentMethod (enhancedTransactionSafety (Some c) b v t) = blocked)"
proof (intro conjI)
  show "\<exists>ys overall zs.
            calculateOverallRisk [buyer, vendor, transaction] = Inr overall
            \<and> [buyer, vendor, transaction] = ys @ overall # zs
            \<and> (\<forall>y \<in> set ys.
                  getRiskPriority (riskLevel y) < getRiskPriority (riskLevel overall))
            \<and> (\<forall>z \<in> set zs.
                  getRiskPriority (riskLevel z) \<le> getRiskPriority (riskLevel overall))"
    by (rule calculateOverallRisk_first_max)
next
  show "getRiskPriority ''low'' < getRiskPriority ''medium''"
    and "getRiskPriority ''medium'' < getRiskPriority ''high''"
    and "getRiskPriority ''high'' < getRiskPriority ''critical''"
    by (simp_all add: getRiskPriority_words)
next
  let ?B = "checkWalletSafety (toLowerCase c) b"
  let ?V = "checkWalletSafety (toLowerCase c) v"
  let ?T = "checkTransactionSafety (Some c) t"
  let ?D = "enhancedTransactionSafety (Some c) b v t"
  from enhancedTransactionSafety_overall [of c b v t]
  have ov: "calculateOverallRisk [?B, ?V, ?T] = Inr (safetyData ?D)"
    and pm: "paymentMethod ?D = determinePaymentMethod (safetyData ?D)"
    by auto
  show "calculateOverallRisk [?B, ?V, ?T] = Inr (safetyData ?D)"
    by (rule ov)
  show "riskLevel ?B = ''low'' \<and> riskLevel ?V = ''critical'' \<and> riskLevel ?T = ''low''
        \<longrightarrow> riskLevel (safetyData ?D) = ''critical'' \<and> paymentMethod ?D = blocked"
  proof
    assume lv: "riskLevel ?B = ''low'' \<and> riskLevel ?V = ''critical'' \<and> riskLevel ?T = ''low''"
    have "calculateOverallRisk [?B, ?V, ?T] = Inr ?V"
      using lv by (simp only: calculateOverallRisk_three getRiskPriority_words) simp
    with ov have "safetyData ?D = ?V"
      by simp
    with lv have "riskLevel (safetyData ?D) = ''critical''"
      by simp
    with pm show "riskLevel (safetyData ?D) = ''critical'' \<and> paymentMethod ?D = blocked"
      by (simp add: determinePaymentMethod_def)
  qed
qed

theorem calculateOverallRisk_first_highest_witness:
  "riskLevel (safetyData (enhancedTransactionSafety (Some ''Base'') (Inr None)
        (Inr (Some \<lparr>dd_riskScore = Some 90, dd_riskLevel = None, dd_flaggedReasons = None\<rparr>))
        (Inr None))) = ''critical''
   \<and> paymentMethod (enhancedTransactionSafety (Some ''Base'') (Inr None)
        (Inr (Some \<lparr>dd_riskScore = Some 90, dd_riskLevel = None, dd_flaggedReasons = None\<rparr>))
        (Inr None)) = blocked"
proof -
  let ?v = "Inr (Some \<lparr>dd_riskScore = Some 90, dd_riskLevel = None, dd_flaggedReasons = None\<rparr>)
              :: js_error + DDxyzThreatRisk option"
  have h: "\<forall>r \<in> set [\<lparr>riskLevel = ''low'', score = 100, reasons = [],
                    recommendation = SafeToProceed, providers = []\<rparr>,
                  \<lparr>riskLevel = ''critical'', score = 10, reasons = [],
                    recommendation = CriticalRiskDoNotProceed, providers = [''dd.xyz'']\<rparr>,
                  \<lparr>riskLevel = ''low'', score = 100, reasons = [''Standard transfer''],
                    recommendation = SafeToProceed, providers = []\<rparr>].
      riskLevel r \<in> {''low'', ''medium'', ''high'', ''critical''}"
    by simp
  have c: "toLowerCase ''Base'' = ''base''"
    by (simp add: toLowerCase_def char_lower_def char_of_eq_iff)
  have b: "riskLevel (checkWalletSafety (toLowerCase ''Base'') (Inr None)) = ''low''"
    by (simp add: checkWalletSafety_no_data)
  have v: "riskLevel (checkWalletSafety (toLowerCase ''Base'') ?v) = ''critical''"
    by (simp add: c checkWalletSafety_returning calculateRiskScore_def mapRiskLevel_def)
  have t: "riskLevel (checkTransactionSafety (Some ''Base'') (Inr None)) = ''low''"
    by (simp add: checkTransactionSafety_def checkWalletSafety_no_data)
  from b v t h
    calculateOverallRisk_first_highest [OF h, of "''Base''" "Inr None" ?v "Inr None"]
  show ?thesis
    by blast
qed

section \<open>Properties of the wallet service\<close>

subsection \<open>Hexadecimal text and splitting\<close>

lemma of_char_less_256: "(of_char c :: nat) < 256"
proof -
  have "(of_char c :: nat) mod 256 = of_char c" by simp
  moreover have "(of_char c :: nat) mod 256 < 256" by (rule mod_less_divisor) simp
  ultimately show ?thesis by simp
qed

lemma hex_value_hex_digit:
  assumes "n < 16"
  shows "hex_value (hex_digit n) = Some n"
  using assms by (auto simp: hex_value_def hex_digit_def Let_def)

lemma hex_byte:
  "(case (hex_value (hex_digit (of_char b div 16)), hex_value (hex_digit (of_char b mod 16))) of
      (Some x, Some y) \<Rightarrow> char_of (16 * x + y) # r
    | _ \<Rightarrow> []) = b # r"
proof -
  have d: "(of_char b :: nat) div 16 < 16"
    using of_char_less_256 [of b] by presburger
  have m: "(of_char b :: nat) mod 16 < 16"
    by simp
  have "char_of (16 * ((of_char b :: nat) div 16) + of_char b mod 16) = b"
    by simp
  then show ?thesis
    by (simp add: hex_value_hex_digit [OF d] hex_value_hex_digit [OF m])
qed

lemma toHex_Cons:
  "toHex (b # bs) = hex_digit (of_char b div 16) # hex_digit (of_char b mod 16) # toHex bs"
  by (simp add: toHex_def)

lemma toHex_Nil: "toHex [] = []"
  by (simp add: toHex_def)

lemma fromHex_toHex: "fromHex (toHex buf) = buf"
proof (induction buf)
  case Nil
  show ?case by (simp add: toHex_Nil)
next
  case (Cons b bs)
  have "fromHex (toHex (b # bs)) =
     (case (hex_value (hex_digit (of_char b div 16)), hex_value (hex_digit (of_char b mod 16))) of
        (Some x, Some y) \<Rightarrow> char_of (16 * x + y) # fromHex (toHex bs)
      | _ \<Rightarrow> [])"
    by (simp only: toHex_Cons fromHex.simps)
  then show ?case
    by (simp only: hex_byte Cons.IH)
qed

lemma length_toHex: "length (toHex buf) = 2 * length buf"
  by (induction buf) (simp_all add: toHex_Nil toHex_Cons)

lemma hex_value_toHex: "c \<in> set (toHex buf) \<Longrightarrow> hex_value c \<noteq> None"
proof (induction buf)
  case Nil
  then show ?case by (simp add: toHex_Nil)
next
  case (Cons b bs)
  have d: "(of_char b :: nat) div 16 < 16"
    using of_char_less_256 [of b] by presburger
  have m: "(of_char b :: nat) mod 16 < 16"
    by simp
  from Cons show ?case
    using hex_value_hex_digit [OF d] hex_value_hex_digit [OF m]
    by (auto simp: toHex_Cons)
qed

lemma isHex_toHex: "buf \<noteq> [] \<Longrightarrow> isHex (toHex buf)"
  using hex_value_toHex [of _ buf]
  by (cases buf) (auto simp: isHex_def toHex_Cons)

lemma colon_notin_toHex: "CHR '':'' \<notin> set (toHex buf)"
proof
  assume "CHR '':'' \<in> set (toHex buf)"
  then have "hex_value (CHR '':'') \<noteq> None"
    by (rule hex_value_toHex)
  then show False
    by (simp add: hex_value_def)
qed

lemma split_on_absent: "d \<notin> set s \<Longrightarrow> split_on d s = [s]"
  by (induction s) auto

lemma split_on_once:
  "d \<notin> set a \<Longrightarrow> d \<notin> set b \<Longrightarrow> split_on d (a @ d # b) = [a, b]"
  by (induction a) (auto simp: split_on_absent)


subsection \<open>Encrypting and decrypting\<close>

lemma decryptPrivateKey_try_wellformed:
  assumes "length iv = 16" and "encrypted \<noteq> []" and "passwordHash \<noteq> []"
  shows "decryptPrivateKey_try C encryptionKey (toHex iv @ '':'' @ toHex encrypted) passwordHash =
     (let log0 =
            (if encryptionKey = DEFAULT_KEY
             then [Log LogWarn
                     ''Using default encryption key - this may cause decryption failures if key was changed''
                     []]
             else [])
      in case decipher C (derived_key C encryptionKey passwordHash) iv encrypted of
           Inl err \<Rightarrow> (Inl err, log0)
         | Inr decrypted \<Rightarrow>
             if decrypted = [] then
               (Inl (Error ''Decryption resulted in empty private key'' None), log0)
             else
               (Inr decrypted,
                log0 @
                (if \<not> startsWith decrypted ''0x'' \<or> length decrypted \<noteq> 66
                 then [Log LogWarn
                         (''Decrypted key format may be invalid. Expected 66-char hex string starting with 0x, got: ''
                            @ decimal (length decrypted) @ '' chars'') []]
                 else [])))"
proof -
  have sp: "split_on (CHR '':'') (toHex iv @ '':'' @ toHex encrypted) = [toHex iv, toHex encrypted]"
    using split_on_once [OF colon_notin_toHex colon_notin_toHex, of iv encrypted] by simp
  have iv_nonempty: "iv \<noteq> []"
    using assms(1) by auto
  have ne: "toHex iv @ '':'' @ toHex encrypted \<noteq> []"
    by simp
  have l32: "length (toHex iv) = 32"
    using assms(1) by (simp add: length_toHex)
  have lne: "length (toHex encrypted) \<noteq> 0"
    using assms(2) by (simp add: length_toHex)
  show ?thesis
    unfolding decryptPrivateKey_try_def derived_key_def
    using assms
    by (simp only: sp ne l32 lne isHex_toHex [OF iv_nonempty] isHex_toHex [OF assms(2)]
          fromHex_toHex list.case if_False if_True not_True_eq_False not_False_eq_True
          simp_thms Let_def)
       (simp add: Let_def cong: sum.case_cong)
qed





lemma sample_derived_key:
  "derived_key sample_crypto ''master'' [] = ''master00000000000000000000000000''"
  "derived_key sample_crypto ''master'' ''5f4dcc3b'' = ''master5f4dcc3b000000000000000000''"
  by (simp_all add: derived_key_def sample_crypto_def eval_nat_numeral)


lemma sample_decipher:
  "decipher sample_crypto key iv (key @ plaintext) = Inr plaintext"
  by (simp add: sample_crypto_def)




subsection \<open>What the key vault logs\<close>

lemma getWallet_catch_invalid_key:
  "getWallet_catch (Error ''Decrypted private key is invalid - key may be corrupted'' None) logged
     = (Inl (Error ''Failed to get wallet: Decrypted private key is invalid - key may be corrupted''
               None),
        logged @ [Log LogError ''Error getting wallet:''
                    [(''error'', VStr ''Decrypted private key is invalid - key may be corrupted''),
                     (''code'', VUndefined)]])"
  by (simp add: getWallet_catch_def)

text \<open>
  Whenever the decrypted text is refused by the wallet constructor, \<open>getWallet\<close> writes
  the first ten characters of the decrypted text to the log.
\<close>

lemma getWallet_logs_keyPreview:
  assumes "decryptPrivateKey C encryptionKey encryptedPrivateKey passwordHash = (Inr key, logged)"
    and "newWallet key = Inl walletError"
  shows "snd (getWallet C newWallet encryptionKey encryptedPrivateKey passwordHash) =
     logged @
     [Log LogError ''Failed to create wallet from decrypted key:''
        [(''error'', VStr (message walletError)),
         (''keyLength'', VNum (length key)),
         (''keyPreview'', VStr (if take 10 key = [] then ''null'' else take 10 key))],
      Log LogError ''Error getting wallet:''
        [(''error'', VStr ''Decrypted private key is invalid - key may be corrupted''),
         (''code'', VUndefined)]]"
  using assms by (simp add: getWallet_def getWallet_catch_invalid_key)

lemma sample_decrypt_short_key:
  assumes "length key = 65"
  shows "decryptPrivateKey sample_crypto ''master''
           (toHex ''0123456789abcdef'' @ '':'' @ toHex (''master5f4dcc3b000000000000000000'' @ key))
           ''5f4dcc3b''
         = (Inr key,
            [Log LogWarn
               ''Decrypted key format may be invalid. Expected 66-char hex string starting with 0x, got: 65 chars''
               []])"
proof -
  have d: "decipher sample_crypto (derived_key sample_crypto ''master'' ''5f4dcc3b'')
             ''0123456789abcdef'' (''master5f4dcc3b000000000000000000'' @ key) = Inr key"
    using sample_decipher [of "''master5f4dcc3b000000000000000000''" "''0123456789abcdef''" key]
    by (simp only: sample_derived_key)
  have n: "key \<noteq> []"
    using assms by auto
  have h1: "length ''0123456789abcdef'' = 16" by simp
  have h2: "''master5f4dcc3b000000000000000000'' @ key \<noteq> []" by simp
  have h3: "''5f4dcc3b'' \<noteq> []" by simp
  have dec: "decimal 65 = ''65''"
    by (simp add: decimal.simps char_of_eq_iff)
  have t: "decryptPrivateKey_try sample_crypto ''master''
             (toHex ''0123456789abcdef'' @ '':'' @ toHex (''master5f4dcc3b000000000000000000'' @ key))
             ''5f4dcc3b''
           = (Inr key,
              [Log LogWarn
                 ''Decrypted key format may be invalid. Expected 66-char hex string starting with 0x, got: 65 chars''
                 []])"
    by (simp only: decryptPrivateKey_try_wellformed [OF h1 h2 h3] d)
       (simp add: n assms dec DEFAULT_KEY_def)
  show ?thesis
    by (simp only: decryptPrivateKey_def t) simp
qed

text \<open>
  C2 fails on \<open>getWallet\<close>. The two stored keys below decrypt, under the master key
  \<open>master\<close> and the password hash \<open>5f4dcc3b\<close>, to two private keys that have lost
  their last digit and differ in their first four bytes. The wallet constructor refuses
  both, and the error payload that \<open>getWallet\<close> logs carries the first ten characters
  of each decrypted key: the log depends on the content of the decrypted key.
\<close>

theorem getWallet_logs_decrypted_key:
  "snd (getWallet sample_crypto sample_newWallet ''master''
          ''30313233343536373839616263646566:6d617374657235663464636333623030303030303030303030303030303030303078346330383833613639313032393337643632333134373162356462623632303466653531323936313730383237393261653436386430316133663336323331''
          ''5f4dcc3b'')
     = [Log LogWarn
          ''Decrypted key format may be invalid. Expected 66-char hex string starting with 0x, got: 65 chars''
          [],
        Log LogError ''Failed to create wallet from decrypted key:''
          [(''error'', VStr ''invalid private key''), (''keyLength'', VNum 65),
           (''keyPreview'', VStr ''0x4c0883a6'')],
        Log LogError ''Error getting wallet:''
          [(''error'', VStr ''Decrypted private key is invalid - key may be corrupted''),
           (''code'', VUndefined)]]
   \<and> snd (getWallet sample_crypto sample_newWallet ''master''
          ''30313233343536373839616263646566:6d617374657235663464636333623030303030303030303030303030303030303078396632643765316239313032393337643632333134373162356462623632303466653531323936313730383237393261653436386430316133663336323331''
          ''5f4dcc3b'')
     = [Log LogWarn
          ''Decrypted key format may be invalid. Expected 66-char hex string starting with 0x, got: 65 chars''
          [],
        Log LogError ''Failed to create wallet from decrypted key:''
          [(''error'', VStr ''invalid private key''), (''keyLength'', VNum 65),
           (''keyPreview'', VStr ''0x9f2d7e1b'')],
        Log LogError ''Error getting wallet:''
          [(''error'', VStr ''Decrypted private key is invalid - key may be corrupted''),
           (''code'', VUndefined)]]"
proof (intro conjI)
  let ?a = "''0x4c0883a69102937d6231471b5dbb6204fe5129617082792ae468d01a3f36231''"
  let ?b = "''0x9f2d7e1b9102937d6231471b5dbb6204fe5129617082792ae468d01a3f36231''"
  have sa: "toHex ''0123456789abcdef'' @ '':'' @ toHex (''master5f4dcc3b000000000000000000'' @ ?a)
      = ''30313233343536373839616263646566:6d617374657235663464636333623030303030303030303030303030303030303078346330383833613639313032393337643632333134373162356462623632303466653531323936313730383237393261653436386430316133663336323331''"
    by (simp add: toHex_def hex_digit_def char_of_eq_iff)
  have sb: "toHex ''0123456789abcdef'' @ '':'' @ toHex (''master5f4dcc3b000000000000000000'' @ ?b)
      = ''30313233343536373839616263646566:6d617374657235663464636333623030303030303030303030303030303030303078396632643765316239313032393337643632333134373162356462623632303466653531323936313730383237393261653436386430316133663336323331''"
    by (simp add: toHex_def hex_digit_def char_of_eq_iff)
  have wa: "sample_newWallet ?a = Inl (Error ''invalid private key'' (Some ''INVALID_ARGUMENT''))"
    by (simp add: sample_newWallet_def)
  have wb: "sample_newWallet ?b = Inl (Error ''invalid private key'' (Some ''INVALID_ARGUMENT''))"
    by (simp add: sample_newWallet_def)
  have la: "length ?a = 65" by simp
  have lb: "length ?b = 65" by simp
  show "snd (getWallet sample_crypto sample_newWallet ''master''
          ''30313233343536373839616263646566:6d617374657235663464636333623030303030303030303030303030303030303078346330383833613639313032393337643632333134373162356462623632303466653531323936313730383237393261653436386430316133663336323331''
          ''5f4dcc3b'')
     = [Log LogWarn
          ''Decrypted key format may be invalid. Expected 66-char hex string starting with 0x, got: 65 chars''
          [],
        Log LogError ''Failed to create wallet from decrypted key:''
          [(''error'', VStr ''invalid private key''), (''keyLength'', VNum 65),
           (''keyPreview'', VStr ''0x4c0883a6'')],
        Log LogError ''Error getting wallet:''
          [(''error'', VStr ''Decrypted private key is invalid - key may be corrupted''),
           (''code'', VUndefined)]]"
    using getWallet_logs_keyPreview [where newWallet = sample_newWallet, OF sample_decrypt_short_key [OF la] wa]
    by (simp only: sa) simp
  show "snd (getWallet sample_crypto sample_newWallet ''master''
          ''30313233343536373839616263646566:6d617374657235663464636333623030303030303030303030303030303030303078396632643765316239313032393337643632333134373162356462623632303466653531323936313730383237393261653436386430316133663336323331''
          ''5f4dcc3b'')
     = [Log LogWarn
          ''Decrypted key format may be invalid. Expected 66-char hex string starting with 0x, got: 65 chars''
          [],
        Log LogError ''Failed to create wallet from decrypted key:''
          [(''error'', VStr ''invalid private key''), (''keyLength'', VNum 65),
           (''keyPreview'', VStr ''0x9f2d7e1b'')],
        Log LogError ''Error getting wallet:''
          [(''error'', VStr ''Decrypted private key is invalid - key may be corrupted''),
           (''code'', VUndefined)]]"
    using getWallet_logs_keyPreview [where newWallet = sample_newWallet, OF sample_decrypt_short_key [OF lb] wb]
    by (simp only: sb) simp
qed

section \<open>Properties of the escrow controller\<close>

subsection \<open>Recovering the escrow id\<close>

lemma is_EscrowCreated_iff:
  "is_EscrowCreated l \<longleftrightarrow> (\<exists>args. l = Event ''EscrowCreated'' args)"
  by (cases l) (simp_all add: is_EscrowCreated_def)


lemma find_None_list_ex: "find P xs = None \<longleftrightarrow> \<not> list_ex P xs"
  by (auto simp: find_None_iff list_ex_iff)








subsection \<open>Release, refund and dispute\<close>


lemma findOneAndUpdate_absent:
  assumes "\<not> list_ex (\<lambda>x. m_escrowId x = escrowId) store"
  shows "findOneAndUpdate escrowId update store = store"
  using assms by (induction store) simp_all



section \<open>Properties of the blockchain service\<close>

lemma initializeProvider_shape:
  "\<exists>opts. initializeProvider newJsonRpcProvider config cache =
     (case map_of cache (cacheKey config) of
        Some cachedProvider \<Rightarrow> (Inr cachedProvider, cache)
      | None \<Rightarrow>
          (case newJsonRpcProvider (rpcUrl config) opts of
             Inl err \<Rightarrow>
               (Inl (Error (''Provider initialization failed for '' @ name config) None),
                cache)
           | Inr p \<Rightarrow> (Inr p, cache @ [(cacheKey config, p)])))"
  unfolding initializeProvider_def Let_def by (rule exI) (rule refl)

lemma initializeProvider_cache:
  "snd (initializeProvider newJsonRpcProvider config cache) = cache
   \<or> (\<exists>p. fst (initializeProvider newJsonRpcProvider config cache) = Inr p
          \<and> map_of cache (cacheKey config) = None
          \<and> snd (initializeProvider newJsonRpcProvider config cache)
              = cache @ [(cacheKey config, p)])"
proof -
  from initializeProvider_shape [of newJsonRpcProvider config cache]
  obtain opts where e: "initializeProvider newJsonRpcProvider config cache =
     (case map_of cache (cacheKey config) of
        Some cachedProvider \<Rightarrow> (Inr cachedProvider, cache)
      | None \<Rightarrow>
          (case newJsonRpcProvider (rpcUrl config) opts of
             Inl err \<Rightarrow>
               (Inl (Error (''Provider initialization failed for '' @ name config) None),
                cache)
           | Inr p \<Rightarrow> (Inr p, cache @ [(cacheKey config, p)])))"
    by (rule exE)
  show ?thesis
    unfolding e by (simp split: option.splits sum.splits)
qed

lemma initializeProvider_cached:
  assumes "fst (initializeProvider newJsonRpcProvider config cache) = Inr p"
  shows "map_of (snd (initializeProvider newJsonRpcProvider config cache)) (cacheKey config)
           = Some p"
proof -
  from initializeProvider_shape [of newJsonRpcProvider config cache]
  obtain opts where e: "initializeProvider newJsonRpcProvider config cache =
     (case map_of cache (cacheKey config) of
        Some cachedProvider \<Rightarrow> (Inr cachedProvider, cache)
      | None \<Rightarrow>
          (case newJsonRpcProvider (rpcUrl config) opts of
             Inl err \<Rightarrow>
               (Inl (Error (''Provider initialization failed for '' @ name config) None),
                cache)
           | Inr p \<Rightarrow> (Inr p, cache @ [(cacheKey config, p)])))"
    by (rule exE)
  from assms show ?thesis
    unfolding e by (auto simp: map_add_Some_iff split: option.splits sum.splits)
qed

lemma switchProvider_unfold:
  "switchProvider newJsonRpcProvider alive newConfig this cache =
     (case fst (initializeProvider newJsonRpcProvider newConfig cache) of
        Inl err \<Rightarrow>
          (Inl (Error ''Provider switch failed'' None), this,
           snd (initializeProvider newJsonRpcProvider newConfig cache))
      | Inr newProvider \<Rightarrow>
          if \<not> alive newProvider then
            (Inl (Error ''Provider switch failed'' None), this,
             snd (initializeProvider newJsonRpcProvider newConfig cache))
          else
            (Inr (),
             this\<lparr>providerConfig := newConfig, provider := newProvider,
                  wallet := \<lparr>s_privateKey = s_privateKey (wallet this),
                             s_provider = newProvider\<rparr>,
                  contract := \<lparr>c_target = c_target (contract this),
                               c_fragments = c_fragments (contract this),
                               c_runner = \<lparr>s_privateKey = s_privateKey (wallet this),
                                           s_provider = newProvider\<rparr>\<rparr>\<rparr>,
             snd (initializeProvider newJsonRpcProvider newConfig cache)))"
  by (cases "initializeProvider newJsonRpcProvider newConfig cache")
     (simp add: switchProvider_def testProviderConnection_def Let_def split: sum.splits)

lemma switchProvider_failure:
  assumes "fst (switchProvider newJsonRpcProvider alive newConfig this cache) = Inl e"
  shows "e = Error ''Provider switch failed'' None
         \<and> fst (snd (switchProvider newJsonRpcProvider alive newConfig this cache)) = this"
  using assms
  by (simp add: switchProvider_unfold split: sum.splits if_splits)

lemma switchProvider_success:
  assumes "fst (switchProvider newJsonRpcProvider alive newConfig this cache) = Inr u"
  shows "alive (provider (fst (snd (switchProvider newJsonRpcProvider alive newConfig this cache))))
     \<and> providerConfig (fst (snd (switchProvider newJsonRpcProvider alive newConfig this cache)))
         = newConfig
     \<and> map_of (snd (snd (switchProvider newJsonRpcProvider alive newConfig this cache)))
          (cacheKey newConfig)
         = Some (provider (fst (snd (switchProvider newJsonRpcProvider alive newConfig this cache))))
     \<and> s_provider (wallet (fst (snd (switchProvider newJsonRpcProvider alive newConfig this cache))))
         = provider (fst (snd (switchProvider newJsonRpcProvider alive newConfig this cache)))
     \<and> c_runner (contract (fst (snd (switchProvider newJsonRpcProvider alive newConfig this cache))))
         = wallet (fst (snd (switchProvider newJsonRpcProvider alive newConfig this cache)))
     \<and> s_privateKey (wallet (fst (snd (switchProvider newJsonRpcProvider alive newConfig this cache))))
         = s_privateKey (wallet this)
     \<and> c_target (contract (fst (snd (switchProvider newJsonRpcProvider alive newConfig this cache))))
         = c_target (contract this)
     \<and> c_fragments (contract (fst (snd (switchProvider newJsonRpcProvider alive newConfig this cache))))
         = c_fragments (contract this)"
proof (cases "fst (initializeProvider newJsonRpcProvider newConfig cache)")
  case (Inl err)
  with assms show ?thesis
    by (simp add: switchProvider_unfold)
next
  case (Inr p)
  with assms have a: "alive p"
    by (simp add: switchProvider_unfold split: if_splits)
  from Inr a initializeProvider_cached [OF Inr] show ?thesis
    by (simp add: switchProvider_unfold)
qed

lemma switchProvider_agree:
  assumes "references_agree this"
  shows "references_agree (fst (snd (switchProvider newJsonRpcProvider alive newConfig this cache)))"
  using assms
  by (simp add: switchProvider_unfold references_agree_def split: sum.splits)

lemma switchProvider_cache:
  "snd (snd (switchProvider newJsonRpcProvider alive newConfig this cache)) = cache
   \<or> (\<exists>p. map_of cache (cacheKey newConfig) = None
          \<and> snd (snd (switchProvider newJsonRpcProvider alive newConfig this cache))
              = cache @ [(cacheKey newConfig, p)])"
proof -
  have "snd (snd (switchProvider newJsonRpcProvider alive newConfig this cache))
          = snd (initializeProvider newJsonRpcProvider newConfig cache)"
    by (simp add: switchProvider_unfold split: sum.splits)
  with initializeProvider_cache [of newJsonRpcProvider newConfig cache] show ?thesis
    by auto
qed

lemma decimal_84532: "decimal 84532 = ''84532''"
  by (simp add: decimal.simps char_of_eq_iff)

text \<open>
  C9, as stated, fails in its first clause: \<open>initializeProvider\<close> enters the candidate
  connection into the shared provider cache before the liveness check is made. Here the
  candidate does not answer; the switch is refused and the instance is as it was, but
  the cache, empty before, now holds the unverified connection.
\<close>

theorem switchProvider_cache_counterexample:
  "fst (switchProvider sample_newJsonRpcProvider sample_alive
          \<lparr>rpcUrl = ''https://unreachable.example'', chainId = Some 84532,
           name = ''Base Sepolia'', timeout = None\<rparr>
          sample_service [])
     = Inl (Error ''Provider switch failed'' None)
   \<and> fst (snd (switchProvider sample_newJsonRpcProvider sample_alive
          \<lparr>rpcUrl = ''https://unreachable.example'', chainId = Some 84532,
           name = ''Base Sepolia'', timeout = None\<rparr>
          sample_service []))
     = sample_service
   \<and> snd (snd (switchProvider sample_newJsonRpcProvider sample_alive
          \<lparr>rpcUrl = ''https://unreachable.example'', chainId = Some 84532,
           name = ''Base Sepolia'', timeout = None\<rparr>
          sample_service []))
     = [(''https://unreachable.example-84532'', ''https://unreachable.example'')]"
  by (simp add: switchProvider_unfold initializeProvider_def cacheKey_def decimal_84532
      sample_newJsonRpcProvider_def sample_alive_def Let_def)

text \<open>
  C9, amended. \<open>switchProvider\<close> makes its liveness check on the candidate connection
  before it changes any reference of the instance. When the switch fails it raises
  \<open>Provider switch failed\<close> and leaves \<open>providerConfig\<close>, \<open>provider\<close>, \<open>wallet\<close> and
  \<open>contract\<close> exactly as they were; when it succeeds the candidate has answered the
  probe and all four are updated together: the configuration is the new one, the
  connection is the cached connection of that configuration, the wallet keeps its key
  and signs through the new connection, and the contract keeps its target and fragments
  and is bound to the new wallet. So references that agree before agree after, in every
  execution. The only state touched before the check is the shared provider cache,
  which may gain the candidate's entry.
\<close>

theorem switchProvider_references:
  "(\<forall>e. fst (switchProvider newJsonRpcProvider alive newConfig this cache) = Inl e \<longrightarrow>
      e = Error ''Provider switch failed'' None
      \<and> fst (snd (switchProvider newJsonRpcProvider alive newConfig this cache)) = this)
   \<and> (\<forall>u. fst (switchProvider newJsonRpcProvider alive newConfig this cache) = Inr u \<longrightarrow>
      alive (provider (fst (snd (switchProvider newJsonRpcProvider alive newConfig this cache))))
      \<and> providerConfig (fst (snd (switchProvider newJsonRpcProvider alive newConfig this cache)))
          = newConfig
      \<and> map_of (snd (snd (switchProvider newJsonRpcProvider alive newConfig this cache)))
           (cacheKey newConfig)
          = Some (provider (fst (snd (switchProvider newJsonRpcProvider alive newConfig this cache))))
      \<and> s_provider (wallet (fst (snd (switchProvider newJsonRpcProvider alive newConfig this cache))))
          = provider (fst (snd (switchProvider newJsonRpcProvider alive newConfig this cache)))
      \<and> c_runner (contract (fst (snd (switchProvider newJsonRpcProvider alive newConfig this cache))))
          = wallet (fst (snd (switchProvider newJsonRpcProvider alive newConfig this cache)))
      \<and> s_privateKey (wallet (fst (snd (switchProvider newJsonRpcProvider alive newConfig this cache))))
          = s_privateKey (wallet this)
      \<and> c_target (contract (fst (snd (switchProvider newJsonRpcProvider alive newConfig this cache))))
          = c_target (contract this)
      \<and> c_fragments (contract (fst (snd (switchProvider newJsonRpcProvider alive newConfig this cache))))
          = c_fragments (contract this))
   \<and> (references_agree this \<longrightarrow>
        references_agree (fst (snd (switchProvider newJsonRpcProvider alive newConfig this cache))))
   \<and> (snd (snd (switchProvider newJsonRpcProvider alive newConfig this cache)) = cache
       \<or> (\<exists>p. map_of cache (cacheKey newConfig) = None
              \<and> snd (snd (switchProvider newJsonRpcProvider alive newConfig this cache))
                  = cache @ [(cacheKey newConfig, p)]))"
proof (intro conjI allI impI)
  fix e
  assume "fst (switchProvider newJsonRpcProvider alive newConfig this cache) = Inl e"
  then have f: "e = Error ''Provider switch failed'' None
         \<and> fst (snd (switchProvider newJsonRpcProvider alive newConfig this cache)) = this"
    by (rule switchProvider_failure)
  from f show "e = Error ''Provider switch failed'' None" by (rule conjunct1)
  from f show "fst (snd (switchProvider newJsonRpcProvider alive newConfig this cache)) = this"
    by (rule conjunct2)
next
  fix u
  assume s: "fst (switchProvider newJsonRpcProvider alive newConfig this cache) = Inr u"
  note r = switchProvider_success [OF s]
  from r show "alive (provider (fst (snd (switchProvider newJsonRpcProvider alive newConfig this cache))))"
    by simp
  from r show "providerConfig (fst (snd (switchProvider newJsonRpcProvider alive newConfig this cache)))
          = newConfig"
    by simp
  from r show "map_of (snd (snd (switchProvider newJsonRpcProvider alive newConfig this cache)))
           (cacheKey newConfig)
          = Some (provider (fst (snd (switchProvider newJsonRpcProvider alive newConfig this cache))))"
    by simp
  from r show "s_provider (wallet (fst (snd (switchProvider newJsonRpcProvider alive newConfig this cache))))
          = provider (fst (snd (switchProvider newJsonRpcProvider alive newConfig this cache)))"
    by simp
  from r show "c_runner (contract (fst (snd (switchProvider newJsonRpcProvider alive newConfig this cache))))
          = wallet (fst (snd (switchProvider newJsonRpcProvider alive newConfig this cache)))"
    by simp
  from r show "s_privateKey (wallet (fst (snd (switchProvider newJsonRpcProvider alive newConfig this cache))))
          = s_privateKey (wallet this)"
    by simp
  from r show "c_target (contract (fst (snd (switchProvider newJsonRpcProvider alive newConfig this cache))))
          = c_target (contract this)"
    by simp
  from r show "c_fragments (contract (fst (snd (switchProvider newJsonRpcProvider alive newConfig this cache))))
          = c_fragments (contract this)"
    by simp
next
  assume "references_agree this"
  then show "references_agree (fst (snd (switchProvider newJsonRpcProvider alive newConfig this cache)))"
    by (rule switchProvider_agree)
next
  show "snd (snd (switchProvider newJsonRpcProvider alive newConfig this cache)) = cache
       \<or> (\<exists>p. map_of cache (cacheKey newConfig) = None
              \<and> snd (snd (switchProvider newJsonRpcProvider alive newConfig this cache))
                  = cache @ [(cacheKey newConfig, p)])"
    by (rule switchProvider_cache)
qed

theorem switchProvider_references_witness:
  "fst (switchProvider sample_newJsonRpcProvider sample_alive
          \<lparr>rpcUrl = ''https://base-sepolia.example'', chainId = Some 84532,
           name = ''Base Sepolia'', timeout = None\<rparr>
          sample_service []) = Inr ()
   \<and> sample_alive (provider (fst (snd (switchProvider sample_newJsonRpcProvider sample_alive
          \<lparr>rpcUrl = ''https://base-sepolia.example'', chainId = Some 84532,
           name = ''Base Sepolia'', timeout = None\<rparr>
          sample_service []))))
   \<and> references_agree (fst (snd (switchProvider sample_newJsonRpcProvider sample_alive
          \<lparr>rpcUrl = ''https://base-sepolia.example'', chainId = Some 84532,
           name = ''Base Sepolia'', timeout = None\<rparr>
          sample_service [])))
   \<and> fst (snd (switchProvider sample_newJsonRpcProvider sample_alive
          \<lparr>rpcUrl = ''https://unreachable.example'', chainId = Some 84532,
           name = ''Base Sepolia'', timeout = None\<rparr>
          sample_service [])) = sample_service"
proof (intro conjI)
  let ?good = "\<lparr>rpcUrl = ''https://base-sepolia.example'', chainId = Some 84532,
           name = ''Base Sepolia'', timeout = None\<rparr>"
  let ?bad = "\<lparr>rpcUrl = ''https://unreachable.example'', chainId = Some 84532,
           name = ''Base Sepolia'', timeout = None\<rparr>"
  show g: "fst (switchProvider sample_newJsonRpcProvider sample_alive ?good sample_service [])
          = Inr ()"
    by (simp add: switchProvider_unfold initializeProvider_def cacheKey_def decimal_84532
        sample_newJsonRpcProvider_def sample_alive_def Let_def)
  have b: "fst (switchProvider sample_newJsonRpcProvider sample_alive ?bad sample_service [])
          = Inl (Error ''Provider switch failed'' None)"
    by (simp add: switchProvider_unfold initializeProvider_def cacheKey_def decimal_84532
        sample_newJsonRpcProvider_def sample_alive_def Let_def)
  have a: "references_agree sample_service"
    by (simp add: references_agree_def sample_service_def)
  note t = switchProvider_references
    [of sample_newJsonRpcProvider sample_alive ?good sample_service "[]"]
  note t' = switchProvider_references
    [of sample_newJsonRpcProvider sample_alive ?bad sample_service "[]"]
  show "sample_alive (provider (fst (snd (switchProvider sample_newJsonRpcProvider sample_alive
          ?good sample_service []))))"
    by (rule conjunct1 [OF mp [OF spec [OF conjunct1 [OF conjunct2 [OF t]]] g]])
  show "references_agree (fst (snd (switchProvider sample_newJsonRpcProvider sample_alive
          ?good sample_service [])))"
    by (rule mp [OF conjunct1 [OF conjunct2 [OF conjunct2 [OF t]]] a])
  show "fst (snd (switchProvider sample_newJsonRpcProvider sample_alive ?bad sample_service []))
          = sample_service"
    by (rule conjunct2 [OF mp [OF spec [OF conjunct1 [OF t']] b]])
qed
end
